theory Spec2Isabelle
  imports Main "HOL-Library.Sublist"
begin

section \<open>Values shared by the pipeline and the HTTP coordinator\<close>

text \<open>
  JavaScript values as they arrive from a decoded JSON body or a query-string map.
  An absent property (\<open>undefined\<close>) is \<open>None\<close> of an option.
\<close>

datatype json =
    JNull
  | JBool bool
  | JNum int
  | JStr string
  | JArr "json list"
  | JObj "(string \<times> json) list"

text \<open>
  Everything the two source files throw.  \<open>HttpQueryError\<close> carries
  \<open>statusCode\<close>, \<open>message\<close>, \<open>isGraphQLError\<close> and the optional headers;
  \<open>GenericError\<close> is a plain \<open>Error\<close> with its message and its
  \<open>extensions.code\<close>, \<open>WarnedError\<close> one with its message and its \<open>warning\<close>.
\<close>

datatype error =
    HttpQueryError nat string bool "(string \<times> string) list option"
  | InvalidGraphQLRequestError string
  | PersistedQueryNotSupportedError
  | PersistedQueryNotFoundError
  | GenericError string "string option"
  | WarnedError string "string option"

section \<open>requestPipeline.ts\<close>

subsection \<open>Data\<close>

datatype gqlError = GraphQLError string

datatype errorClass = SyntaxError | ValidationError

datatype operationKind = OpQuery | OpMutation | OpSubscription

record operation =
  op_operation :: operationKind
  op_name :: "string option"

datatype document = Document "operation list"

record persistedQuery =
  version :: int
  sha256Hash :: string

text \<open>
  \<open>GraphQLRequest\<close>.  \<open>request_persistedQuery\<close> is \<open>Some\<close> exactly when
  \<open>extensions && extensions.persistedQuery\<close> is truthy.
\<close>

record request =
  request_query :: "string option"
  request_operationName :: "string option"
  request_variables :: "json option"
  request_persistedQuery :: "persistedQuery option"

record GraphQLResponse =
  errors :: "json list option"
  data :: "json option"
  extensions :: "(string \<times> json) list option"
  http :: "json option"

record requestContext =
  rc_request :: request
  rc_context :: "(string \<times> json) list"
  rc_response :: "GraphQLResponse option"

text \<open>
  The persisted-query cache is an external capability.  \<open>get\<close> is awaited, so it either
  resolves to the stored text (or \<open>undefined\<close>) or rejects.  \<open>set\<close> is started and its
  promise is left alone: it may resolve, reject or never settle, and it may change the store.
\<close>

datatype writeOutcome = WriteResolves | WriteRejects error | WriteNeverSettles

record 'c cache =
  cache_get :: "string \<Rightarrow> 'c \<Rightarrow> error + string option"
  cache_set :: "string \<Rightarrow> string \<Rightarrow> 'c \<Rightarrow> writeOutcome \<times> 'c"

text \<open>
  A request listener is what a plugin's \<open>requestDidStart\<close> returns.  Each optional method
  is given by what one call of it does: return nothing, return an end callback, or throw.
  A listener receives the request context by reference; \<open>editResponse\<close> is what its
  \<open>willSendResponse\<close>, when it returns, has done to \<open>requestContext.response\<close>.
\<close>

datatype hookName =
  ParsingDidStart | ValidationDidStart | DidResolveOperation | ExecutionDidStart | WillSendResponse

datatype hook = Returns | ReturnsEndCallback | Throws error

record listener =
  lname :: string
  parsingDidStart :: "hook option"
  validationDidStart :: "hook option"
  didResolveOperation :: "hook option"
  executionDidStart :: "hook option"
  willSendResponse :: "hook option"
  editResponse :: "GraphQLResponse \<Rightarrow> GraphQLResponse"

fun hookOf :: "hookName \<Rightarrow> listener \<Rightarrow> hook option" where
  "hookOf ParsingDidStart l = parsingDidStart l"
| "hookOf ValidationDidStart l = validationDidStart l"
| "hookOf DidResolveOperation l = didResolveOperation l"
| "hookOf ExecutionDidStart l = executionDidStart l"
| "hookOf WillSendResponse l = willSendResponse l"

text \<open>
  \<open>GraphQLRequestPipelineConfig\<close>.  \<open>cfg_cache\<close> is \<open>Some\<close> exactly when
  \<open>persistedQueries && persistedQueries.cache\<close> is truthy; \<open>cfg_dataSources\<close> is what the
  \<open>dataSources\<close> factory returns; \<open>cfg_formatResponse\<close>, a function of the user's, returns
  the response or throws; a plugin is the listener its \<open>requestDidStart\<close> returns,
  \<open>None\<close> when it has no such method or returns nothing.
\<close>

record 'c config =
  cfg_cache :: "'c cache option"
  cfg_dataSources :: "json option"
  cfg_formatResponse ::
    "(GraphQLResponse \<Rightarrow> (string \<times> json) list \<Rightarrow> error + GraphQLResponse) option"
  cfg_plugins :: "listener option list"

text \<open>
  The libraries the pipeline calls: \<open>crypto\<close>, \<open>graphql\<close> (with the schema, the
  validation rules, the root value and the field resolver of the configuration applied),
  \<open>apollo-server-errors\<close> and the extension stack of \<open>graphql-extensions\<close>, whose
  \<open>format()\<close> and \<open>willSendResponse()\<close> return a value or throw.
\<close>

record libraries =
  sha256hex :: "string \<Rightarrow> string"
  graphql_parse :: "string \<Rightarrow> gqlError + document"
  graphql_validate :: "document \<Rightarrow> gqlError list"
  graphql_execute ::
    "document \<Rightarrow> string option \<Rightarrow> json option \<Rightarrow> (string \<times> json) list \<Rightarrow> gqlError + GraphQLResponse"
  fromGraphQLError :: "gqlError \<Rightarrow> errorClass option \<Rightarrow> json"
  extensionStack_format :: "error + (string \<times> json) list"
  extensionStack_willSendResponse :: "GraphQLResponse \<Rightarrow> error + GraphQLResponse"

text \<open>What an observer can see happen.\<close>

datatype event =
    Called string hookName
  | Ended string hookName bool
  | ExtRequestDidStart bool bool
  | ExtRequestDidEnd
  | ExtParsingDidStart
  | ExtParsingDidEnd
  | ExtValidationDidStart
  | ExtValidationDidEnd
  | ExtExecutionDidStart
  | ExtExecutionDidEnd
  | ExtFormat
  | ExtWillSendResponse
  | CacheGet string
  | CacheSet string string
  | ConsoleWarn error

text \<open>
  One invocation of \<open>processRequest\<close>: what its promise settles to, what happened up to then,
  in order, and the store of the cache.  \<open>background\<close> is what comes of the promises it
  started and left alone: that happens when they settle, after the step that started them and
  after the synchronous steps that follow it, at no fixed place among the later events of
  \<open>trace\<close>, and possibly after the invocation has completed.
\<close>

record 'c run =
  outcome :: "error + GraphQLResponse"
  trace :: "event list"
  background :: "event list"
  cacheAfter :: 'c

subsection \<open>Dispatcher\<close>

text \<open>
  Modelled from the spec: \<open>utils/dispatcher.ts\<close> (class \<open>Dispatcher\<close>) is not among the
  source files.  \<open>invokeAsync\<close> calls each listener's hook in registration order, awaiting
  each before calling the next, and stops at the first that throws; so the first hook is
  called at once and every later one only after a suspension.  \<open>invokeDidStart\<close> calls each
  listener's start hook in registration order and collects the end callbacks; the combined
  end callback calls them in the same order, each with the optional error.  A listener
  without the hook is skipped.
\<close>

fun invokeAsync :: "hookName \<Rightarrow> listener list \<Rightarrow> error option \<times> event list" where
  "invokeAsync h [] = (None, [])"
| "invokeAsync h (l # ls) =
     (case hookOf h l of
        None \<Rightarrow> invokeAsync h ls
      | Some (Throws e) \<Rightarrow> (Some e, [Called (lname l) h])
      | Some _ \<Rightarrow> (case invokeAsync h ls of (r, ev) \<Rightarrow> (r, Called (lname l) h # ev)))"

fun invokeDidStart :: "hookName \<Rightarrow> listener list \<Rightarrow> (error + string list) \<times> event list" where
  "invokeDidStart h [] = (Inr [], [])"
| "invokeDidStart h (l # ls) =
     (case hookOf h l of
        None \<Rightarrow> invokeDidStart h ls
      | Some (Throws e) \<Rightarrow> (Inl e, [Called (lname l) h])
      | Some Returns \<Rightarrow>
          (case invokeDidStart h ls of (r, ev) \<Rightarrow> (r, Called (lname l) h # ev))
      | Some ReturnsEndCallback \<Rightarrow>
          (case invokeDidStart h ls of
             (Inl e, ev) \<Rightarrow> (Inl e, Called (lname l) h # ev)
           | (Inr ends, ev) \<Rightarrow> (Inr (lname l # ends), Called (lname l) h # ev)))"

definition didEnd :: "hookName \<Rightarrow> string list \<Rightarrow> bool \<Rightarrow> event list" where
  "didEnd h ends withError = map (\<lambda>n. Ended n h withError) ends"

subsection \<open>processRequest\<close>

definition computeQueryHash :: "libraries \<Rightarrow> string \<Rightarrow> string" where
  "computeQueryHash lib query = sha256hex lib query"

text \<open>
  \<open>initializeDataSources\<close>: with a \<open>dataSources\<close> factory configured, a context that already
  has the key is refused, otherwise the key is added.
\<close>

definition initializeDataSources ::
  "'c config \<Rightarrow> (string \<times> json) list \<Rightarrow> error + (string \<times> json) list" where
  "initializeDataSources cfg ctx =
     (case cfg_dataSources cfg of
        None \<Rightarrow> Inr ctx
      | Some dataSources \<Rightarrow>
          if ''dataSources'' \<in> fst ` set ctx
          then Inl (GenericError
            ''Please use the dataSources config option instead of putting dataSources on the context yourself.''
            None)
          else Inr (ctx @ [(''dataSources'', dataSources)]))"

text \<open>
  The persisted-query block of \<open>processRequest\<close>, up to the last \<open>throw\<close> before
  \<open>extensionStack.requestDidStart\<close>.  It yields the query text, the hash and the two flags
  \<open>persistedQueryHit\<close> and \<open>persistedQueryRegister\<close>, or the error thrown; the events up to
  there; and what comes of the write it started without awaiting it: the \<open>console.warn\<close> of
  the \<open>catch\<close> handler when the write is rejected, nothing otherwise.
\<close>

definition resolveQuery ::
  "libraries \<Rightarrow> 'c config \<Rightarrow> request \<Rightarrow> 'c
     \<Rightarrow> (error + string \<times> string \<times> bool \<times> bool) \<times> event list \<times> event list \<times> 'c" where
  "resolveQuery lib cfg req c =
     (case request_persistedQuery req of
        Some pq \<Rightarrow>
          (case cfg_cache cfg of
             None \<Rightarrow> (Inl PersistedQueryNotSupportedError, [], [], c)
           | Some cache \<Rightarrow>
               if version pq \<noteq> 1
               then (Inl (InvalidGraphQLRequestError ''Unsupported persisted query version''),
                     [], [], c)
               else
                 let queryHash = sha256Hash pq; key = ''apq:'' @ queryHash in
                 (case request_query req of
                    None \<Rightarrow>
                      (case cache_get cache key c of
                         Inl e \<Rightarrow> (Inl e, [CacheGet key], [], c)
                       | Inr None \<Rightarrow> (Inl PersistedQueryNotFoundError, [CacheGet key], [], c)
                       | Inr (Some query) \<Rightarrow>
                           if query \<noteq> []
                           then (Inr (query, queryHash, True, False), [CacheGet key], [], c)
                           else (Inl PersistedQueryNotFoundError, [CacheGet key], [], c))
                  | Some query \<Rightarrow>
                      if queryHash \<noteq> computeQueryHash lib query
                      then (Inl (InvalidGraphQLRequestError ''provided sha does not match query''),
                            [], [], c)
                      else
                        (case cache_set cache key query c of
                           (WriteRejects e, c') \<Rightarrow>
                             (Inr (query, queryHash, False, True),
                              [CacheSet key query], [ConsoleWarn e], c')
                         | (_, c') \<Rightarrow>
                             (Inr (query, queryHash, False, True), [CacheSet key query], [], c'))))
      | None \<Rightarrow>
          (case request_query req of
             Some query \<Rightarrow>
               if query \<noteq> []
               then (Inr (query, computeQueryHash lib query, False, False), [], [], c)
               else (Inl (InvalidGraphQLRequestError ''Must provide query string.''), [], [], c)
           | None \<Rightarrow>
               (Inl (InvalidGraphQLRequestError ''Must provide query string.''), [], [], c)))"

text \<open>
  \<open>sendResponse\<close>: the extension stack's \<open>willSendResponse\<close> gets the response with
  \<open>errors\<close>, \<open>data\<close> and \<open>extensions\<close> overridden and the other properties of
  \<open>requestContext.response\<close> kept, then the listeners' \<open>willSendResponse\<close> are awaited,
  and \<open>requestContext.response\<close> is returned as they left it.

  \<open>processRequest\<close> calls it as \<open>return sendResponse(...)\<close>, without \<open>await\<close>, inside its
  \<open>try\<close>.  So the result has two lists of events: what \<open>sendResponse\<close> does before it first
  suspends and hands its promise back (the extension stack's \<open>willSendResponse\<close> and the call
  of the first listener that has the hook), and what it does after.
\<close>

definition afterListeners :: "listener list \<Rightarrow> GraphQLResponse \<Rightarrow> GraphQLResponse" where
  "afterListeners ls response =
     fold (\<lambda>l r. case willSendResponse l of None \<Rightarrow> r | Some h \<Rightarrow> editResponse l r)
       ls response"

definition sendResponse ::
  "libraries \<Rightarrow> listener list \<Rightarrow> requestContext \<Rightarrow> GraphQLResponse
     \<Rightarrow> (error + GraphQLResponse) \<times> event list \<times> event list" where
  "sendResponse lib ls rc response =
     (case extensionStack_willSendResponse lib
             \<lparr>errors = errors response, data = data response, extensions = extensions response,
              http = (case rc_response rc of None \<Rightarrow> None | Some r \<Rightarrow> http r)\<rparr> of
        Inl e \<Rightarrow> (Inl e, [ExtWillSendResponse], [])
      | Inr sent \<Rightarrow>
          (case invokeAsync WillSendResponse ls of
             (Some e, ev) \<Rightarrow> (Inl e, ExtWillSendResponse # take 1 ev, drop 1 ev)
           | (None, ev) \<Rightarrow>
               (Inr (afterListeners ls sent), ExtWillSendResponse # take 1 ev, drop 1 ev)))"

definition errorResponse :: "json list \<Rightarrow> GraphQLResponse" where
  "errorResponse es = \<lparr>errors = Some es, data = None, extensions = None, http = None\<rparr>"

text \<open>
  The stages of the \<open>try\<close> block give what the block returns or throws, the events up to the
  moment control leaves the block, and the events that follow (those of a \<open>sendResponse\<close> that
  was returned while still running).
\<close>

definition leaving ::
  "event list \<Rightarrow> (error + GraphQLResponse) \<times> event list \<times> event list
     \<Rightarrow> (error + GraphQLResponse) \<times> event list \<times> event list" where
  "leaving before res = (case res of (r, ev, later) \<Rightarrow> (r, before @ ev, later))"

text \<open>
  After execution has returned a result: the formatted extensions are merged in, the user's
  \<open>formatResponse\<close> applied, the response sent.  A throw of \<open>format()\<close> or of
  \<open>formatResponse\<close> leaves the \<open>try\<close> block at once.
\<close>

definition formatStage ::
  "libraries \<Rightarrow> 'c config \<Rightarrow> listener list \<Rightarrow> requestContext \<Rightarrow> (string \<times> json) list
     \<Rightarrow> GraphQLResponse \<Rightarrow> (error + GraphQLResponse) \<times> event list \<times> event list" where
  "formatStage lib cfg ls rc ctx result =
     (case extensionStack_format lib of
        Inl e \<Rightarrow> (Inl e, [ExtFormat], [])
      | Inr formattedExtensions \<Rightarrow>
          let response1 = (if formattedExtensions \<noteq> []
                           then result\<lparr>extensions := Some formattedExtensions\<rparr>
                           else result)
          in (case cfg_formatResponse cfg of
                None \<Rightarrow> leaving [ExtFormat] (sendResponse lib ls rc response1)
              | Some f \<Rightarrow>
                  (case f response1 ctx of
                     Inl e \<Rightarrow> (Inl e, [ExtFormat], [])
                   | Inr response2 \<Rightarrow> leaving [ExtFormat] (sendResponse lib ls rc response2))))"

text \<open>The part of the \<open>try\<close> block after validation has passed.\<close>

definition executeStage ::
  "libraries \<Rightarrow> 'c config \<Rightarrow> listener list \<Rightarrow> requestContext \<Rightarrow> (string \<times> json) list
     \<Rightarrow> document \<Rightarrow> (error + GraphQLResponse) \<times> event list \<times> event list" where
  "executeStage lib cfg ls rc ctx doc =
     (case invokeAsync DidResolveOperation ls of
        (Some e, ev1) \<Rightarrow> (Inl e, ev1, [])
      | (None, ev1) \<Rightarrow>
          (case invokeDidStart ExecutionDidStart ls of
             (Inl e, ev2) \<Rightarrow> (Inl e, ev1 @ ev2, [])
           | (Inr executionDidEnd, ev2) \<Rightarrow>
               (case graphql_execute lib doc (request_operationName (rc_request rc))
                       (request_variables (rc_request rc)) ctx of
                  Inl executionError \<Rightarrow>
                    leaving (ev1 @ ev2 @ [ExtExecutionDidStart, ExtExecutionDidEnd]
                               @ didEnd ExecutionDidStart executionDidEnd True)
                      (sendResponse lib ls rc
                         (errorResponse [fromGraphQLError lib executionError None]))
                | Inr result \<Rightarrow>
                    leaving (ev1 @ ev2 @ [ExtExecutionDidStart, ExtExecutionDidEnd]
                               @ didEnd ExecutionDidStart executionDidEnd False)
                      (formatStage lib cfg ls rc ctx result))))"

text \<open>The \<open>try\<close> block; \<open>parsingDidEnd\<close> is the combined end callback already obtained.\<close>

definition tryBlock ::
  "libraries \<Rightarrow> 'c config \<Rightarrow> listener list \<Rightarrow> requestContext \<Rightarrow> (string \<times> json) list
     \<Rightarrow> string \<Rightarrow> string list \<Rightarrow> (error + GraphQLResponse) \<times> event list \<times> event list" where
  "tryBlock lib cfg ls rc ctx query parsingDidEnd =
     (case graphql_parse lib query of
        Inl syntaxError \<Rightarrow>
          leaving ([ExtParsingDidStart, ExtParsingDidEnd]
                     @ didEnd ParsingDidStart parsingDidEnd True)
            (sendResponse lib ls rc
               (errorResponse [fromGraphQLError lib syntaxError (Some SyntaxError)]))
      | Inr doc \<Rightarrow>
          let ev0 = [ExtParsingDidStart, ExtParsingDidEnd]
                      @ didEnd ParsingDidStart parsingDidEnd False in
          (case invokeDidStart ValidationDidStart ls of
             (Inl e, ev1) \<Rightarrow> (Inl e, ev0 @ ev1, [])
           | (Inr validationDidEnd, ev1) \<Rightarrow>
               let validationErrors = graphql_validate lib doc;
                   ev2 = ev0 @ ev1 @ [ExtValidationDidStart, ExtValidationDidEnd] in
               if validationErrors \<noteq> []
               then
                 leaving (ev2 @ didEnd ValidationDidStart validationDidEnd True)
                   (sendResponse lib ls rc
                      (errorResponse
                         (map (\<lambda>validationError.
                                 fromGraphQLError lib validationError (Some ValidationError))
                            validationErrors)))
               else
                 leaving (ev2 @ didEnd ValidationDidStart validationDidEnd False)
                   (executeStage lib cfg ls rc ctx doc)))"

text \<open>
  \<open>processRequest\<close>.  The listeners are collected, the data sources initialised, the query
  resolved; only then does \<open>extensionStack.requestDidStart\<close> open the request, and only the
  \<open>try\<close> block is covered by the \<open>finally\<close> that closes it.  The \<open>finally\<close> runs when
  control leaves the \<open>try\<close> block: on a throw, or on \<open>return sendResponse(...)\<close> as soon as
  \<open>sendResponse\<close> has handed back its promise; what \<open>sendResponse\<close> still does comes after
  \<open>requestDidEnd\<close>, and the promise of \<open>processRequest\<close> settles when that of
  \<open>sendResponse\<close> does.

  The assignments to \<open>requestContext.document\<close>, \<open>operation\<close> and \<open>operationName\<close> and the
  \<open>_extensionStack\<close> key put on the context are read by listeners and resolvers only, whose
  behaviour is given as data here, so they do not appear in the result.  The lifecycle
  notifications of the extension stack (\<open>requestDidStart\<close>, \<open>parsingDidStart\<close>,
  \<open>validationDidStart\<close>, \<open>executionDidStart\<close> and their end callbacks), the end callbacks of
  listeners and the data sources' \<open>initialize\<close> are taken to return.
\<close>

definition processRequest ::
  "libraries \<Rightarrow> 'c config \<Rightarrow> requestContext \<Rightarrow> 'c \<Rightarrow> 'c run" where
  "processRequest lib cfg rc c =
     (let requestListeners = List.map_filter id (cfg_plugins cfg) in
      case initializeDataSources cfg (rc_context rc) of
        Inl e \<Rightarrow> \<lparr>outcome = Inl e, trace = [], background = [], cacheAfter = c\<rparr>
      | Inr ctx \<Rightarrow>
          (case resolveQuery lib cfg (rc_request rc) c of
             (Inl e, ev0, bg, c') \<Rightarrow>
               \<lparr>outcome = Inl e, trace = ev0, background = bg, cacheAfter = c'\<rparr>
           | (Inr (query, queryHash, persistedQueryHit, persistedQueryRegister), ev0, bg, c') \<Rightarrow>
               let ev1 = ev0 @ [ExtRequestDidStart persistedQueryHit persistedQueryRegister] in
               (case invokeDidStart ParsingDidStart requestListeners of
                  (Inl e, ev2) \<Rightarrow>
                    \<lparr>outcome = Inl e, trace = ev1 @ ev2, background = bg, cacheAfter = c'\<rparr>
                | (Inr parsingDidEnd, ev2) \<Rightarrow>
                    (case tryBlock lib cfg requestListeners rc ctx query parsingDidEnd of
                       (r, ev3, later) \<Rightarrow>
                         \<lparr>outcome = r,
                          trace = ev1 @ ev2 @ ev3 @ [ExtRequestDidEnd] @ later,
                          background = bg, cacheAfter = c'\<rparr>))))"

section \<open>The HTTP-query coordinator (runHttpQuery)\<close>

subsection \<open>JavaScript values\<close>

type_synonym object = "(string \<times> json) list"

fun truthy :: "json \<Rightarrow> bool" where
  "truthy JNull = False"
| "truthy (JBool b) = b"
| "truthy (JNum n) = (n \<noteq> 0)"
| "truthy (JStr s) = (s \<noteq> [])"
| "truthy (JArr xs) = True"
| "truthy (JObj kvs) = True"

definition truthyProp :: "json option \<Rightarrow> bool" where
  "truthyProp v = (case v of None \<Rightarrow> False | Some x \<Rightarrow> truthy x)"

fun isString :: "json \<Rightarrow> bool" where
  "isString (JStr s) = True"
| "isString _ = False"

text \<open>\<open>value.kind\<close>: only an object has own properties that JSON can give it.\<close>

fun kindOf :: "json \<Rightarrow> json option" where
  "kindOf (JObj kvs) = map_of kvs ''kind''"
| "kindOf _ = None"

text \<open>\<open>Object.keys(value).length === 0\<close>.\<close>

fun noKeys :: "json \<Rightarrow> bool" where
  "noKeys (JObj kvs) = (kvs = [])"
| "noKeys (JArr xs) = (xs = [])"
| "noKeys (JStr s) = (s = [])"
| "noKeys _ = True"

definition deleteKey :: "string \<Rightarrow> object \<Rightarrow> object" where
  "deleteKey k kvs = filter (\<lambda>kv. fst kv \<noteq> k) kvs"

text \<open>\<open>object[k] = v\<close>: an existing key keeps its place, a new one goes last.\<close>

fun setKey :: "string \<Rightarrow> 'v \<Rightarrow> (string \<times> 'v) list \<Rightarrow> (string \<times> 'v) list" where
  "setKey k v [] = [(k, v)]"
| "setKey k v ((k', v') # kvs) = (if k = k' then (k, v) # kvs else (k', v') # setKey k v kvs)"

text \<open>\<open>{...a, ...b}\<close>.\<close>

definition spread :: "(string \<times> 'v) list \<Rightarrow> (string \<times> 'v) list \<Rightarrow> (string \<times> 'v) list" where
  "spread a b = fold (\<lambda>kv acc. setKey (fst kv) (snd kv) acc) b a"

definition digit :: "nat \<Rightarrow> char" where
  "digit d = char_of (48 + d)"

text \<open>\<open>Number.prototype.toString\<close> on a length.\<close>

function decimal :: "nat \<Rightarrow> string" where
  "decimal n = (if n < 10 then [digit n] else decimal (n div 10) @ [digit (n mod 10)])"
  by pat_completeness auto
termination
  by (relation "measure (\<lambda>n. n)") auto

subsection \<open>Options, requests and responses\<close>

text \<open>
  \<open>optionsObject.context\<close>: falsy, a function (given by what its \<open>i\<close>-th call of the HTTP
  request does: throw an error with a message and an \<open>extensions.code\<close>, or return the
  context), or a plain object.
\<close>

datatype contextOption =
    ContextAbsent
  | ContextFunction "nat \<Rightarrow> (string \<times> string option) + object"
  | ContextValue object

record cacheControlOptions =
  cc_stripFormattedExtensions :: "bool option"
  cc_calculateHttpHeaders :: "bool option"
  cc_defaultMaxAge :: "int option"

datatype cacheControlOption =
    CacheControlUndefined
  | CacheControlBoolean bool
  | CacheControlObject cacheControlOptions

record cacheControl =
  stripFormattedExtensions :: bool
  calculateHttpHeaders :: bool
  defaultMaxAge :: int

text \<open>
  The resolved \<open>GraphQLOptions\<close>.  \<open>opt_engine\<close> stands for the fields handed to the request
  processor untouched: schema, rootValue, validationRules, fieldResolver, extensions,
  persistedQueries, tracing and formatResponse.  \<open>opt_dataSources\<close> is what the
  \<open>dataSources\<close> factory returns.
\<close>

record 'e options =
  opt_engine :: 'e
  opt_debug :: "bool option"
  opt_context :: contextOption
  opt_dataSources :: "json option"
  opt_cacheControl :: cacheControlOption
  opt_formatError :: "(json \<Rightarrow> json) option"

datatype payload = Single object | Batch "object list"

text \<open>
  \<open>HttpQueryRequest\<close>.  \<open>hq_query\<close> is \<open>None\<close> when \<open>request.query\<close> is falsy;
  \<open>hq_options\<close> is what \<open>resolveGraphqlOptions(request.options, ...handlerArguments)\<close> does:
  throw an error with a message, or return the options.
\<close>

record 'e HttpQueryRequest =
  hq_method :: string
  hq_query :: "payload option"
  hq_options :: "string + 'e options"
  hq_request :: json

record ApolloServerHttpResponse =
  headers :: "(string \<times> string) list"

record HttpQueryResponse =
  graphqlResponse :: string
  responseInit :: ApolloServerHttpResponse

text \<open>What \<open>runHttpQuery\<close> gives \<open>new GraphQLRequestProcessor\<close> and its \<open>processRequest\<close>.\<close>

record 'e processorConfig =
  pc_engine :: 'e
  pc_context :: object
  pc_cacheControl :: "cacheControl option"
  pc_debug :: "bool option"
  pc_queryExtensions :: "json option"
  pc_willExecuteOperation :: "(operation \<Rightarrow> error option) option"

record processorRequest =
  pr_query :: "json option"
  pr_operationName :: "json option"
  pr_variables :: "json option"
  pr_extensions :: "json option"
  pr_httpRequest :: json

record 'e invocation =
  inv_config :: "'e processorConfig"
  inv_request :: processorRequest

record formatOptions =
  fo_debug :: "bool option"
  fo_formatter :: "(json \<Rightarrow> json) option"

text \<open>
  What \<open>runHttpQuery\<close> calls and does not define: \<open>process.env.NODE_ENV\<close>, \<open>JSON\<close>,
  \<open>Buffer.byteLength\<close>, \<open>formatApolloErrors\<close>, \<open>calculateCacheControlHeaders\<close> and the
  request processor, which throws or returns a response object.  \<open>JSON_parse\<close> is \<open>None\<close>
  where \<open>JSON.parse\<close> throws.
\<close>

record 'e collaborators =
  debugDefault :: bool
  JSON_parse :: "json \<Rightarrow> json option"
  JSON_stringify :: "json \<Rightarrow> string"
  byteLength :: "string \<Rightarrow> nat"
  formatApolloErrors :: "error list \<Rightarrow> formatOptions \<Rightarrow> json list"
  calculateCacheControlHeaders :: "object list \<Rightarrow> (string \<times> string) list"
  processor :: "'e invocation \<Rightarrow> error + object"

subsection \<open>runHttpQuery\<close>

definition prettyJSONStringify :: "'e collaborators \<Rightarrow> json \<Rightarrow> string" where
  "prettyJSONStringify env v = JSON_stringify env v @ [CHR 0x0A]"

text \<open>
  \<open>throwHttpGraphQLError\<close>, as the error it throws.  The caller passes the \<open>errors\<close>
  property: formatted by \<open>formatApolloErrors\<close> when it has an options object, as it is when not.
\<close>

definition throwHttpGraphQLError :: "'e collaborators \<Rightarrow> nat \<Rightarrow> json \<Rightarrow> error" where
  "throwHttpGraphQLError env statusCode errs =
     HttpQueryError statusCode (prettyJSONStringify env (JObj [(''errors'', errs)])) True
       (Some [(''Content-Type'', ''application/json'')])"

definition formatWith :: "'e collaborators \<Rightarrow> error list \<Rightarrow> 'e options \<Rightarrow> json" where
  "formatWith env es optionsObject =
     JArr (formatApolloErrors env es
             \<lparr>fo_debug = opt_debug optionsObject, fo_formatter = opt_formatError optionsObject\<rparr>)"

definition queriesMustBeStrings :: "json \<Rightarrow> string" where
  "queriesMustBeStrings queryString =
     (if kindOf queryString = Some (JStr ''Document'')
      then ''GraphQL queries must be strings. It looks like you're sending the '' @
           ''internal graphql-js representation of a parsed query in your '' @
           ''request instead of a request in the GraphQL query language. You '' @
           ''can convert an AST to a string using the `print` function from '' @
           ''`graphql`, or use a client like `apollo-client` which converts '' @
           ''the internal representation to a string for you.''
      else ''GraphQL queries must be strings.'')"

text \<open>The \<open>switch\<close> on the method: the error thrown, or \<open>isGetRequest\<close> and the payload.\<close>

definition requestPayload :: "string \<Rightarrow> payload option \<Rightarrow> error + bool \<times> payload" where
  "requestPayload method query =
     (let missing = (case query of
                       None \<Rightarrow> True
                     | Some (Single params) \<Rightarrow> params = []
                     | Some (Batch members) \<Rightarrow> members = [])
      in if method = ''POST''
         then (case query of
                 Some p \<Rightarrow>
                   if missing
                   then Inl (HttpQueryError 500
                          ''POST body missing. Did you forget use body-parser middleware?'' False None)
                   else Inr (False, p)
               | None \<Rightarrow>
                   Inl (HttpQueryError 500
                          ''POST body missing. Did you forget use body-parser middleware?'' False None))
         else if method = ''GET''
         then (case query of
                 Some p \<Rightarrow>
                   if missing then Inl (HttpQueryError 400 ''GET query missing.'' False None)
                   else Inr (True, p)
               | None \<Rightarrow> Inl (HttpQueryError 400 ''GET query missing.'' False None))
         else Inl (HttpQueryError 405 ''Apollo Server supports only GET/POST requests.'' False
                     (Some [(''Allow'', ''GET, POST'')])))"

text \<open>
  The first part of the callback mapped over the payload, in the order of the source: the
  extensions (decoded for a GET request), the check of the query string, the variables
  (decoded whenever they are a string).
\<close>

definition decodeExtensions :: "'e collaborators \<Rightarrow> bool \<Rightarrow> object \<Rightarrow> error + json option" where
  "decodeExtensions env isGetRequest requestParams =
     (case map_of requestParams ''extensions'' of
        None \<Rightarrow> Inr None
      | Some x \<Rightarrow>
          if isGetRequest \<and> truthy x
          then (case JSON_parse env x of
                  None \<Rightarrow> Inl (HttpQueryError 400 ''Extensions are invalid JSON.'' False None)
                | Some y \<Rightarrow> Inr (Some y))
          else Inr (Some x))"

definition checkQueryString :: "object \<Rightarrow> error option" where
  "checkQueryString requestParams =
     (case map_of requestParams ''query'' of
        None \<Rightarrow> None
      | Some queryString \<Rightarrow>
          if truthy queryString \<and> \<not> isString queryString
          then Some (HttpQueryError 400 (queriesMustBeStrings queryString) False None)
          else None)"

definition decodeVariables :: "'e collaborators \<Rightarrow> object \<Rightarrow> error + json option" where
  "decodeVariables env requestParams =
     (case map_of requestParams ''variables'' of
        Some (JStr encoded) \<Rightarrow>
          (case JSON_parse env (JStr encoded) of
             None \<Rightarrow> Inl (HttpQueryError 400 ''Variables are invalid JSON.'' False None)
           | Some v \<Rightarrow> Inr (Some v))
      | variables \<Rightarrow> Inr variables)"

definition decodeParams ::
  "'e collaborators \<Rightarrow> json \<Rightarrow> bool \<Rightarrow> object \<Rightarrow> error + processorRequest" where
  "decodeParams env httpRequest isGetRequest requestParams =
     (case decodeExtensions env isGetRequest requestParams of
        Inl e \<Rightarrow> Inl e
      | Inr exts \<Rightarrow>
          (case checkQueryString requestParams of
             Some e \<Rightarrow> Inl e
           | None \<Rightarrow>
               (case decodeVariables env requestParams of
                  Inl e \<Rightarrow> Inl e
                | Inr variables \<Rightarrow>
                    Inr \<lparr>pr_query = map_of requestParams ''query'',
                         pr_operationName = map_of requestParams ''operationName'',
                         pr_variables = variables, pr_extensions = exts,
                         pr_httpRequest = httpRequest\<rparr>)))"

text \<open>The context of one operation; \<open>i\<close> is the operation's place in the payload.\<close>

definition createContext :: "'e collaborators \<Rightarrow> 'e options \<Rightarrow> nat \<Rightarrow> error + object" where
  "createContext env optionsObject i =
     (case opt_context optionsObject of
        ContextAbsent \<Rightarrow> Inr []
      | ContextValue ctx \<Rightarrow> Inr ctx
      | ContextFunction f \<Rightarrow>
          (case f i of
             Inr ctx \<Rightarrow> Inr ctx
           | Inl (message, code) \<Rightarrow>
               let e = GenericError (''Context creation failed: '' @ message) code in
               if (case code of
                     None \<Rightarrow> False
                   | Some c \<Rightarrow> c \<noteq> [] \<and> c \<noteq> ''INTERNAL_SERVER_ERROR'')
               then Inl (throwHttpGraphQLError env 400 (formatWith env [e] optionsObject))
               else Inl (throwHttpGraphQLError env 500 (formatWith env [e] optionsObject))))"

definition attachDataSources :: "'e options \<Rightarrow> object \<Rightarrow> error + object" where
  "attachDataSources optionsObject ctx =
     (case opt_dataSources optionsObject of
        None \<Rightarrow> Inr ctx
      | Some made \<Rightarrow>
          let dataSources = (if truthy made then made else JObj []) in
          if ''dataSources'' \<in> fst ` set ctx
          then Inl (GenericError
            ''Please use the dataSources config option instead of putting dataSources on the context yourself.''
            None)
          else Inr (ctx @ [(''dataSources'', dataSources)]))"

definition cacheControlOf :: "'e options \<Rightarrow> cacheControl option" where
  "cacheControlOf optionsObject =
     (case opt_cacheControl optionsObject of
        CacheControlBoolean b \<Rightarrow>
          if b
          then Some \<lparr>stripFormattedExtensions = False, calculateHttpHeaders = False,
                     defaultMaxAge = 0\<rparr>
          else None
      | CacheControlUndefined \<Rightarrow>
          Some \<lparr>stripFormattedExtensions = True, calculateHttpHeaders = True, defaultMaxAge = 0\<rparr>
      | CacheControlObject given \<Rightarrow>
          Some \<lparr>stripFormattedExtensions =
                   (case cc_stripFormattedExtensions given of None \<Rightarrow> True | Some b \<Rightarrow> b),
                 calculateHttpHeaders =
                   (case cc_calculateHttpHeaders given of None \<Rightarrow> True | Some b \<Rightarrow> b),
                 defaultMaxAge = (case cc_defaultMaxAge given of None \<Rightarrow> 0 | Some n \<Rightarrow> n)\<rparr>)"

text \<open>The \<open>willExecuteOperation\<close> installed on the processor of a GET request.\<close>

definition getSupportsOnlyQuery :: "operation \<Rightarrow> error option" where
  "getSupportsOnlyQuery operation =
     (if op_operation operation \<noteq> OpQuery
      then Some (HttpQueryError 405 ''GET supports only query operation'' False
                   (Some [(''Allow'', ''POST'')]))
      else None)"

text \<open>Everything of the callback before \<open>requestProcessor.processRequest\<close> is called.\<close>

definition prepareInvocation ::
  "'e collaborators \<Rightarrow> 'e options \<Rightarrow> json \<Rightarrow> bool \<Rightarrow> nat \<Rightarrow> object \<Rightarrow> error + 'e invocation" where
  "prepareInvocation env optionsObject httpRequest isGetRequest i requestParams =
     (case decodeParams env httpRequest isGetRequest requestParams of
        Inl e \<Rightarrow> Inl e
      | Inr req \<Rightarrow>
          (case createContext env optionsObject i of
             Inl e \<Rightarrow> Inl e
           | Inr created \<Rightarrow>
               (case attachDataSources optionsObject created of
                  Inl e \<Rightarrow> Inl e
                | Inr ctx \<Rightarrow>
                    Inr \<lparr>inv_config =
                           \<lparr>pc_engine = opt_engine optionsObject, pc_context = ctx,
                            pc_cacheControl = cacheControlOf optionsObject,
                            pc_debug = opt_debug optionsObject,
                            pc_queryExtensions = pr_extensions req,
                            pc_willExecuteOperation =
                              (if isGetRequest then Some getSupportsOnlyQuery else None)\<rparr>,
                         inv_request = req\<rparr>)))"

text \<open>
  The \<open>try\<close> part of the callback: what it returns or throws, and the processor invocation it
  made, if it got that far (the shared \<open>cacheControl\<close> variable is assigned just before).
\<close>

definition requestMember ::
  "'e collaborators \<Rightarrow> 'e options \<Rightarrow> json \<Rightarrow> bool \<Rightarrow> nat \<Rightarrow> object
     \<Rightarrow> (error + object) \<times> 'e invocation option" where
  "requestMember env optionsObject httpRequest isGetRequest i requestParams =
     (case prepareInvocation env optionsObject httpRequest isGetRequest i requestParams of
        Inl e \<Rightarrow> (Inl e, None)
      | Inr call \<Rightarrow> (processor env call, Some call))"

text \<open>The \<open>catch\<close> part of the callback.\<close>

definition catchMember ::
  "'e collaborators \<Rightarrow> 'e options \<Rightarrow> bool \<Rightarrow> error + object \<Rightarrow> error + object" where
  "catchMember env optionsObject isBatch result =
     (case result of
        Inr response \<Rightarrow> Inr response
      | Inl e \<Rightarrow>
          if isBatch
          then Inr [(''errors'',
                     JArr (formatApolloErrors env [e]
                             \<lparr>fo_debug = opt_debug optionsObject, fo_formatter = None\<rparr>))]
          else (case e of
                  InvalidGraphQLRequestError message \<Rightarrow> Inl (HttpQueryError 400 message False None)
                | PersistedQueryNotSupportedError \<Rightarrow>
                    Inl (throwHttpGraphQLError env 200 (formatWith env [e] optionsObject))
                | PersistedQueryNotFoundError \<Rightarrow>
                    Inl (throwHttpGraphQLError env 200 (formatWith env [e] optionsObject))
                | _ \<Rightarrow> Inl e))"

text \<open>
  \<open>Promise.all\<close>: the responses, or the rejection.  A payload that is not a batch has one
  member, and in a batch no member rejects (\<open>catchMember\<close>), so which rejection comes first
  in time never matters; the first in the payload is taken.
\<close>

fun awaitAll :: "(error + object) list \<Rightarrow> error + object list" where
  "awaitAll [] = Inr []"
| "awaitAll (Inl e # rest) = Inl e"
| "awaitAll (Inr r # rest) = (case awaitAll rest of Inl e \<Rightarrow> Inl e | Inr rs \<Rightarrow> Inr (r # rs))"

text \<open>Removing \<open>extensions.cacheControl\<close>, and \<open>extensions\<close> when nothing is left in it.\<close>

definition stripCacheControl :: "object \<Rightarrow> object" where
  "stripCacheControl response =
     (case map_of response ''extensions'' of
        None \<Rightarrow> response
      | Some exts \<Rightarrow>
          if truthy exts
          then (let stripped = (case exts of JObj kvs \<Rightarrow> JObj (deleteKey ''cacheControl'' kvs)
                                           | other \<Rightarrow> other)
                in if noKeys stripped then deleteKey ''extensions'' response
                   else setKey ''extensions'' stripped response)
          else response)"

definition envelope :: "'e collaborators \<Rightarrow> (string \<times> string) list \<Rightarrow> json \<Rightarrow> HttpQueryResponse" where
  "envelope env hdrs body =
     (let stringified = prettyJSONStringify env body in
      \<lparr>graphqlResponse = stringified,
       responseInit =
         \<lparr>headers = setKey ''Content-Length'' (decimal (byteLength env stringified)) hdrs\<rparr>\<rparr>)"

text \<open>What follows \<open>Promise.all\<close>; \<open>cacheControl\<close> is the shared variable as it then stands.\<close>

definition responseHeaders ::
  "'e collaborators \<Rightarrow> cacheControl option \<Rightarrow> object list \<Rightarrow> (string \<times> string) list" where
  "responseHeaders env cacheControl responses =
     (case cacheControl of
        None \<Rightarrow> [(''Content-Type'', ''application/json'')]
      | Some cc \<Rightarrow>
          if calculateHttpHeaders cc
          then spread [(''Content-Type'', ''application/json'')]
                 (calculateCacheControlHeaders env responses)
          else [(''Content-Type'', ''application/json'')])"

definition sentResponse :: "cacheControl option \<Rightarrow> object \<Rightarrow> object" where
  "sentResponse cacheControl response =
     (case cacheControl of
        None \<Rightarrow> response
      | Some cc \<Rightarrow> if stripFormattedExtensions cc then stripCacheControl response else response)"

definition respond ::
  "'e collaborators \<Rightarrow> cacheControl option \<Rightarrow> bool \<Rightarrow> object list \<Rightarrow> error + HttpQueryResponse" where
  "respond env cacheControl isBatch responses =
     (let hdrs = responseHeaders env cacheControl responses;
          sent = map (sentResponse cacheControl) responses
      in if \<not> isBatch
         then (case sent of
                 [] \<Rightarrow> Inl (GenericError ''Cannot read property 'errors' of undefined'' None)
               | first # others \<Rightarrow>
                   (case map_of first ''errors'' of
                      None \<Rightarrow> Inr (envelope env hdrs (JObj first))
                    | Some errs \<Rightarrow>
                        if truthy errs \<and> map_of first ''data'' = None
                        then Inl (throwHttpGraphQLError env 400 errs)
                        else Inr (envelope env hdrs (JObj first))))
         else Inr (envelope env hdrs (JArr (map JObj sent))))"

text \<open>\<open>if (optionsObject.debug === undefined) optionsObject.debug = debugDefault\<close>.\<close>

definition withDebugDefault :: "'e collaborators \<Rightarrow> 'e options \<Rightarrow> 'e options" where
  "withDebugDefault env resolved =
     (if opt_debug resolved = None then resolved\<lparr>opt_debug := Some (debugDefault env)\<rparr>
      else resolved)"

text \<open>
  \<open>runHttpQuery\<close>: what it returns or throws, and the processor invocations it made, in the
  order of the payload.
\<close>

definition runHttpQuery ::
  "'e collaborators \<Rightarrow> 'e HttpQueryRequest \<Rightarrow> (error + HttpQueryResponse) \<times> 'e invocation list" where
  "runHttpQuery env request =
     (case hq_options request of
        Inl message \<Rightarrow>
          (Inl (throwHttpGraphQLError env 500
                  (JArr (formatApolloErrors env
                           [WarnedError (''Invalid options provided to ApolloServer: '' @ message)
                              (if debugDefault env then None
                               else Some (''To remove the stacktrace, set the NODE_ENV environment '' @
                                          ''variable to production if the options creation can fail''))]
                           \<lparr>fo_debug = Some (debugDefault env), fo_formatter = None\<rparr>))),
           [])
      | Inr resolved \<Rightarrow>
          let optionsObject = withDebugDefault env resolved
          in (case requestPayload (hq_method request) (hq_query request) of
                Inl e \<Rightarrow> (Inl e, [])
              | Inr (isGetRequest, payload) \<Rightarrow>
                  let isBatch = (case payload of Single params \<Rightarrow> False | Batch members \<Rightarrow> True);
                      members = (case payload of Single params \<Rightarrow> [params]
                                               | Batch members \<Rightarrow> members);
                      results = map (\<lambda>(i, requestParams).
                                        requestMember env optionsObject (hq_request request)
                                          isGetRequest i requestParams)
                                  (enumerate 0 members);
                      invocations = List.map_filter snd results;
                      cacheControl = (if invocations = [] then None
                                      else cacheControlOf optionsObject)
                  in (case awaitAll (map (\<lambda>r. catchMember env optionsObject isBatch (fst r))
                                       results) of
                        Inl e \<Rightarrow>
                          (case e of
                             HttpQueryError statusCode message isGraphQLError hdrs \<Rightarrow>
                               (Inl e, invocations)
                           | _ \<Rightarrow>
                               (Inl (throwHttpGraphQLError env 500
                                       (formatWith env [e] optionsObject)),
                                invocations))
                      | Inr responses \<Rightarrow>
                          (respond env cacheControl isBatch responses, invocations))))"

subsection \<open>The request processor\<close>

text \<open>
  Modelled from the spec: \<open>requestProcessing.ts\<close> (class \<open>GraphQLRequestProcessor\<close>), which
  \<open>runHttpQuery\<close> instantiates and calls, is not among the source files.  The stages are those
  of the spec's request pipeline, in its order: RESOLVE_QUERY, PARSE, VALIDATE,
  RESOLVE_OPERATION, EXECUTE, FORMAT.  A failure of query resolution, parsing, validation or
  execution goes to FORMAT with the error in its uniform shape and is returned as a response;
  at RESOLVE_OPERATION the check of a read-only request (the \<open>willExecuteOperation\<close> that
  \<open>runHttpQuery\<close> installs) is made on the resolved operation, and its error is thrown past
  the processor.  \<open>runHttpQuery\<close> configures no plugins, so no listener is dispatched.  The
  engine is what schema, rules and resolvers of the options amount to.
\<close>

datatype stage = RESOLVE_QUERY | PARSE | VALIDATE | RESOLVE_OPERATION | EXECUTE | FORMAT

record engine =
  eng_resolveQuery :: "processorRequest \<Rightarrow> json + string"
  eng_parse :: "string \<Rightarrow> json + document"
  eng_validate :: "document \<Rightarrow> json list"
  eng_getOperationAST :: "document \<Rightarrow> json option \<Rightarrow> operation option"
  eng_execute :: "document \<Rightarrow> processorRequest \<Rightarrow> object \<Rightarrow> json + object"
  eng_format :: "object \<Rightarrow> object"

definition GraphQLRequestProcessor_processRequest ::
  "engine invocation \<Rightarrow> (error + object) \<times> stage list" where
  "GraphQLRequestProcessor_processRequest call =
     (let cfg = inv_config call; req = inv_request call; eng = pc_engine cfg in
      case eng_resolveQuery eng req of
        Inl e \<Rightarrow> (Inr (eng_format eng [(''errors'', JArr [e])]), [RESOLVE_QUERY, FORMAT])
      | Inr query \<Rightarrow>
          (case eng_parse eng query of
             Inl e \<Rightarrow>
               (Inr (eng_format eng [(''errors'', JArr [e])]), [RESOLVE_QUERY, PARSE, FORMAT])
           | Inr doc \<Rightarrow>
               if eng_validate eng doc \<noteq> []
               then (Inr (eng_format eng [(''errors'', JArr (eng_validate eng doc))]),
                     [RESOLVE_QUERY, PARSE, VALIDATE, FORMAT])
               else
                 let resolved = eng_getOperationAST eng doc (pr_operationName req);
                     refused = (case (pc_willExecuteOperation cfg, resolved) of
                                  (Some willExecuteOperation, Some operation) \<Rightarrow>
                                    willExecuteOperation operation
                                | _ \<Rightarrow> None)
                 in (case refused of
                       Some e \<Rightarrow> (Inl e, [RESOLVE_QUERY, PARSE, VALIDATE, RESOLVE_OPERATION])
                     | None \<Rightarrow>
                         (case eng_execute eng doc req (pc_context cfg) of
                            Inl e \<Rightarrow>
                              (Inr (eng_format eng [(''errors'', JArr [e])]),
                               [RESOLVE_QUERY, PARSE, VALIDATE, RESOLVE_OPERATION, EXECUTE, FORMAT])
                          | Inr result \<Rightarrow>
                              (Inr (eng_format eng result),
                               [RESOLVE_QUERY, PARSE, VALIDATE, RESOLVE_OPERATION, EXECUTE,
                                FORMAT])))))"

text \<open>The operation that RESOLVE_OPERATION determines, when the request gets that far.\<close>

definition resolvedOperation :: "engine invocation \<Rightarrow> operation option" where
  "resolvedOperation call =
     (let req = inv_request call; eng = pc_engine (inv_config call) in
      case eng_resolveQuery eng req of
        Inl e \<Rightarrow> None
      | Inr query \<Rightarrow>
          (case eng_parse eng query of
             Inl e \<Rightarrow> None
           | Inr doc \<Rightarrow>
               if eng_validate eng doc \<noteq> [] then None
               else eng_getOperationAST eng doc (pr_operationName req)))"

definition withProcessor :: "engine collaborators \<Rightarrow> engine collaborators" where
  "withProcessor env = env\<lparr>processor := \<lambda>call. fst (GraphQLRequestProcessor_processRequest call)\<rparr>"

section \<open>Notions used in the statements\<close>

text \<open>The calls a dispatch makes when no listener throws, and the end callbacks it collects.\<close>

definition calls :: "hookName \<Rightarrow> listener list \<Rightarrow> event list" where
  "calls h ls = map (\<lambda>l. Called (lname l) h) (filter (\<lambda>l. hookOf h l \<noteq> None) ls)"


fun throwsOn :: "hookName \<Rightarrow> listener \<Rightarrow> bool" where
  "throwsOn h l = (case hookOf h l of Some (Throws e) \<Rightarrow> True | _ \<Rightarrow> False)"

definition neverThrows :: "listener list \<Rightarrow> bool" where
  "neverThrows ls =
     list_all (\<lambda>l. list_all (\<lambda>h. \<not> throwsOn h l)
        [ParsingDidStart, ValidationDidStart, DidResolveOperation, ExecutionDidStart,
         WillSendResponse]) ls"

text \<open>
  A stage result that is a response, whose events up to leaving the \<open>try\<close> block end with the
  extension stack's \<open>willSendResponse\<close> and the call of the first listener that has the hook,
  the calls of the other listeners following.
\<close>

definition sent ::
  "listener list \<Rightarrow> (error + GraphQLResponse) \<times> event list \<times> event list \<Rightarrow> bool" where
  "sent ls res =
     (case res of
        (r, ev, later) \<Rightarrow>
          (case r of Inl e \<Rightarrow> False | Inr response \<Rightarrow> True) \<and>
          suffix (ExtWillSendResponse # take 1 (calls WillSendResponse ls)) ev \<and>
          later = drop 1 (calls WillSendResponse ls))"

text \<open>The flag \<open>persistedQueryHit\<close> as query resolution leaves it.\<close>

definition persistedQueryHit :: "libraries \<Rightarrow> 'c config \<Rightarrow> request \<Rightarrow> 'c \<Rightarrow> bool" where
  "persistedQueryHit lib cfg req c =
     (case fst (resolveQuery lib cfg req c) of
        Inl e \<Rightarrow> False
      | Inr (query, queryHash, hit, register) \<Rightarrow> hit)"

definition apqKey :: "libraries \<Rightarrow> string \<Rightarrow> string" where
  "apqKey lib Q = ''apq:'' @ computeQueryHash lib Q"

text \<open>The three requests of the persisted-query protocol for a query text \<open>Q\<close>.\<close>

definition registerRequest :: "libraries \<Rightarrow> string \<Rightarrow> string option \<Rightarrow> json option \<Rightarrow> request" where
  "registerRequest lib Q n v =
     \<lparr>request_query = Some Q, request_operationName = n, request_variables = v,
      request_persistedQuery = Some \<lparr>version = 1, sha256Hash = computeQueryHash lib Q\<rparr>\<rparr>"

definition lookupRequest :: "libraries \<Rightarrow> string \<Rightarrow> string option \<Rightarrow> json option \<Rightarrow> request" where
  "lookupRequest lib Q n v =
     \<lparr>request_query = None, request_operationName = n, request_variables = v,
      request_persistedQuery = Some \<lparr>version = 1, sha256Hash = computeQueryHash lib Q\<rparr>\<rparr>"

definition literalRequest :: "string \<Rightarrow> string option \<Rightarrow> json option \<Rightarrow> request" where
  "literalRequest Q n v =
     \<lparr>request_query = Some Q, request_operationName = n, request_variables = v,
      request_persistedQuery = None\<rparr>"

text \<open>The same cache with a write that always resolves and stores nothing.\<close>

definition quietCache :: "'c cache \<Rightarrow> 'c cache" where
  "quietCache cache = cache\<lparr>cache_set := \<lambda>k v store. (WriteResolves, store)\<rparr>"

text \<open>The operations of a payload: the one object, or the members of the array.\<close>

definition payloadMembers :: "payload \<Rightarrow> object list" where
  "payloadMembers p = (case p of Single params \<Rightarrow> [params] | Batch ms \<Rightarrow> ms)"

text \<open>What a batch puts in the slot of a member: its result, or its error formatted.\<close>

definition batchSlot :: "'e collaborators \<Rightarrow> 'e options \<Rightarrow> error + object \<Rightarrow> object" where
  "batchSlot env optionsObject result =
     (case result of
        Inr response \<Rightarrow> response
      | Inl e \<Rightarrow>
          [(''errors'',
            JArr (formatApolloErrors env [e]
                    \<lparr>fo_debug = opt_debug optionsObject, fo_formatter = None\<rparr>))])"

section \<open>A small server, for concrete runs\<close>

text \<open>
  A schema with the query field \<open>testString\<close> and the mutation field \<open>testMutation\<close>, a
  stand-in for the digest that keeps the text, a cache that is an association list, and one
  plugin that listens to every stage but validation.
\<close>

definition exampleLibraries :: libraries where
  "exampleLibraries =
     \<lparr>sha256hex = (\<lambda>q. ''sha256:'' @ q),
      graphql_parse = (\<lambda>q. if q = ''{ testString }''
                            then Inr (Document [\<lparr>op_operation = OpQuery, op_name = None\<rparr>])
                            else Inl (GraphQLError ''Syntax Error'')),
      graphql_validate = (\<lambda>d. []),
      graphql_execute = (\<lambda>d n v ctx.
         Inr \<lparr>errors = None, data = Some (JObj [(''testString'', JStr ''it works'')]),
              extensions = None, http = None\<rparr>),
      fromGraphQLError = (\<lambda>e c. case e of GraphQLError m \<Rightarrow> JObj [(''message'', JStr m)]),
      extensionStack_format = Inr [],
      extensionStack_willSendResponse = (\<lambda>r. Inr r)\<rparr>"

definition listCache :: "(string \<times> string) list cache" where
  "listCache =
     \<lparr>cache_get = (\<lambda>k c. Inr (map_of c k)),
      cache_set = (\<lambda>k v c. (WriteResolves, (k, v) # c))\<rparr>"

text \<open>The same store behind a backend whose writes are rejected.\<close>

definition failingCache :: "(string \<times> string) list cache" where
  "failingCache =
     \<lparr>cache_get = (\<lambda>k c. Inr (map_of c k)),
      cache_set = (\<lambda>k v c. (WriteRejects (GenericError ''connection refused'' None), c))\<rparr>"

text \<open>And behind one whose writes never settle.\<close>

definition stalledCache :: "(string \<times> string) list cache" where
  "stalledCache =
     \<lparr>cache_get = (\<lambda>k c. Inr (map_of c k)),
      cache_set = (\<lambda>k v c. (WriteNeverSettles, c))\<rparr>"

definition examplePlugin :: listener where
  "examplePlugin =
     \<lparr>lname = ''plugin'', parsingDidStart = Some ReturnsEndCallback, validationDidStart = None,
      didResolveOperation = Some Returns, executionDidStart = Some ReturnsEndCallback,
      willSendResponse = Some Returns,
      editResponse = (\<lambda>r. r\<lparr>http := Some (JObj [(''x-plugin'', JStr ''seen'')])\<rparr>)\<rparr>"

text \<open>A plugin that only listens to \<open>willSendResponse\<close>.\<close>

definition auditPlugin :: listener where
  "auditPlugin =
     \<lparr>lname = ''audit'', parsingDidStart = None, validationDidStart = None,
      didResolveOperation = None, executionDidStart = None, willSendResponse = Some Returns,
      editResponse = (\<lambda>r. r)\<rparr>"

text \<open>A plugin that refuses every operation once it is resolved.\<close>

definition guardPlugin :: listener where
  "guardPlugin =
     \<lparr>lname = ''guard'', parsingDidStart = None, validationDidStart = None,
      didResolveOperation = Some (Throws (GenericError ''denied'' (Some ''FORBIDDEN''))),
      executionDidStart = None, willSendResponse = None, editResponse = (\<lambda>r. r)\<rparr>"

definition exampleConfig :: "(string \<times> string) list config" where
  "exampleConfig =
     \<lparr>cfg_cache = Some listCache, cfg_dataSources = None, cfg_formatResponse = None,
      cfg_plugins = [Some examplePlugin]\<rparr>"

definition exampleContext :: "request \<Rightarrow> requestContext" where
  "exampleContext req = \<lparr>rc_request = req, rc_context = [], rc_response = None\<rparr>"

fun commaSeparated :: "string list \<Rightarrow> string" where
  "commaSeparated [] = []"
| "commaSeparated [x] = x"
| "commaSeparated (x # y # zs) = x @ '','' @ commaSeparated (y # zs)"

definition quoted :: "string \<Rightarrow> string" where
  "quoted s = [CHR 0x22] @ s @ [CHR 0x22]"

fun exampleStringify :: "json \<Rightarrow> string" where
  "exampleStringify JNull = ''null''"
| "exampleStringify (JBool b) = (if b then ''true'' else ''false'')"
| "exampleStringify (JNum n) = (if n < 0 then ''-'' @ decimal (nat (- n)) else decimal (nat n))"
| "exampleStringify (JStr s) = quoted s"
| "exampleStringify (JArr xs) = ''['' @ commaSeparated (map exampleStringify xs) @ '']''"
| "exampleStringify (JObj kvs) =
     ''{'' @ commaSeparated (map (\<lambda>kv. quoted (fst kv) @ '':'' @ exampleStringify (snd kv)) kvs)
       @ ''}''"

definition exampleFormatError :: "error \<Rightarrow> json" where
  "exampleFormatError e =
     JObj [(''message'',
            JStr (case e of
                    HttpQueryError statusCode message isGraphQLError hdrs \<Rightarrow> message
                  | InvalidGraphQLRequestError message \<Rightarrow> message
                  | PersistedQueryNotSupportedError \<Rightarrow> ''PersistedQueryNotSupported''
                  | PersistedQueryNotFoundError \<Rightarrow> ''PersistedQueryNotFound''
                  | GenericError message code \<Rightarrow> message
                  | WarnedError message warning \<Rightarrow> message))]"

definition exampleEngine :: engine where
  "exampleEngine =
     \<lparr>eng_resolveQuery = (\<lambda>req. case pr_query req of
                                    Some (JStr q) \<Rightarrow>
                                      if q \<noteq> [] then Inr q
                                      else Inl (JObj [(''message'', JStr ''Must provide query string.'')])
                                  | _ \<Rightarrow> Inl (JObj [(''message'', JStr ''Must provide query string.'')])),
      eng_parse = (\<lambda>q. if q = ''{ testString }''
                        then Inr (Document [\<lparr>op_operation = OpQuery, op_name = None\<rparr>])
                        else if q = ''mutation { testMutation }''
                        then Inr (Document [\<lparr>op_operation = OpMutation, op_name = None\<rparr>])
                        else Inl (JObj [(''message'', JStr ''Syntax Error'')])),
      eng_validate = (\<lambda>doc. []),
      eng_getOperationAST = (\<lambda>doc name. case doc of Document ops \<Rightarrow>
                                (case ops of [] \<Rightarrow> None | x # xs \<Rightarrow> Some x)),
      eng_execute = (\<lambda>doc req ctx. case doc of Document ops \<Rightarrow>
                        (case ops of
                           [] \<Rightarrow> Inl (JObj [(''message'', JStr ''Must provide an operation.'')])
                         | x # xs \<Rightarrow>
                             if op_operation x = OpQuery
                             then Inr [(''data'', JObj [(''testString'', JStr ''it works'')])]
                             else Inr [(''data'', JObj [(''testMutation'', JStr ''done'')])])),
      eng_format = (\<lambda>response. response)\<rparr>"

text \<open>
  A request processor with canned answers: data for \<open>{ testString }\<close>, data with a
  cache-control extension for \<open>{ cached }\<close>, a syntax error for any other text, and the
  refusal of a request without a query text.
\<close>

definition exampleProcessor :: "engine invocation \<Rightarrow> error + object" where
  "exampleProcessor call =
     (case pr_query (inv_request call) of
        Some (JStr q) \<Rightarrow>
          if q = ''{ testString }''
          then Inr [(''data'', JObj [(''testString'', JStr ''it works'')])]
          else if q = ''{ cached }''
          then Inr [(''data'', JObj [(''cached'', JStr ''yes'')]),
                    (''extensions'', JObj [(''cacheControl'', JObj [(''version'', JNum 1)])])]
          else Inr [(''errors'', JArr [JObj [(''message'', JStr ''Syntax Error'')]])]
      | _ \<Rightarrow> Inl (InvalidGraphQLRequestError ''Must provide query string.''))"

definition exampleCollaborators :: "engine collaborators" where
  "exampleCollaborators =
     \<lparr>debugDefault = False,
      JSON_parse = (\<lambda>v. if v = JStr ''{}'' then Some (JObj [])
                        else if v = JStr ''null'' then Some JNull
                        else None),
      JSON_stringify = exampleStringify,
      byteLength = length,
      formatApolloErrors = (\<lambda>es fo. map exampleFormatError es),
      calculateCacheControlHeaders =
        (\<lambda>responses. if list_ex (\<lambda>response. map_of response ''extensions'' \<noteq> None) responses
                      then [(''Cache-Control'', ''max-age=60, public'')]
                      else []),
      processor = exampleProcessor\<rparr>"

definition exampleOptions :: "engine options" where
  "exampleOptions =
     \<lparr>opt_engine = exampleEngine, opt_debug = None, opt_context = ContextAbsent,
      opt_dataSources = None, opt_cacheControl = CacheControlUndefined, opt_formatError = None\<rparr>"

definition exampleHttp :: "string \<Rightarrow> payload \<Rightarrow> engine HttpQueryRequest" where
  "exampleHttp method body =
     \<lparr>hq_method = method, hq_query = Some body, hq_options = Inr exampleOptions,
      hq_request = JObj [(''method'', JStr method)]\<rparr>"

text \<open>What \<open>runHttpQuery\<close> hands to the processor for one operation of the small server.\<close>

definition exampleCall :: "bool \<Rightarrow> string \<Rightarrow> object \<Rightarrow> json option \<Rightarrow> engine invocation" where
  "exampleCall isGetRequest method requestParams variables =
     \<lparr>inv_config =
        \<lparr>pc_engine = exampleEngine, pc_context = [],
         pc_cacheControl = Some \<lparr>stripFormattedExtensions = True, calculateHttpHeaders = True,
                                 defaultMaxAge = 0\<rparr>,
         pc_debug = Some False, pc_queryExtensions = None,
         pc_willExecuteOperation = (if isGetRequest then Some getSupportsOnlyQuery else None)\<rparr>,
      inv_request =
        \<lparr>pr_query = map_of requestParams ''query'', pr_operationName = None,
         pr_variables = variables, pr_extensions = None,
         pr_httpRequest = JObj [(''method'', JStr method)]\<rparr>\<rparr>"

section \<open>Properties of the request pipeline\<close>

subsection \<open>Dispatch when no listener throws\<close>










subsection \<open>Query resolution\<close>




lemma register_resolves:
  assumes "cfg_cache cfg = Some cache"
      and "request_persistedQuery req = Some pq"
      and "version pq = 1"
      and "request_query req = Some Q"
      and "sha256Hash pq = computeQueryHash lib Q"
  shows "resolveQuery lib cfg req c =
      (Inr (Q, computeQueryHash lib Q, False, True),
       [CacheSet (apqKey lib Q) Q],
       (case fst (cache_set cache (apqKey lib Q) Q c) of
          WriteRejects e \<Rightarrow> [ConsoleWarn e]
        | _ \<Rightarrow> []),
       snd (cache_set cache (apqKey lib Q) Q c))"
proof -
  obtain w c' where w: "cache_set cache (apqKey lib Q) Q c = (w, c')"
    by (metis surj_pair)
  show ?thesis
    using assms w
    by (cases w) (simp_all add: resolveQuery_def apqKey_def Let_def)
qed

lemma tryBlock_cache:
  "tryBlock lib (cfg\<lparr>cfg_cache := x\<rparr>) ls rc ctx q e = tryBlock lib cfg ls rc ctx q e"
  by (simp add: tryBlock_def executeStage_def formatStage_def
        cong: sum.case_cong prod.case_cong option.case_cong if_cong)

lemma tryBlock_request:
  assumes "request_operationName req = request_operationName req'"
      and "request_variables req = request_variables req'"
  shows "tryBlock lib cfg ls (rc\<lparr>rc_request := req\<rparr>) ctx q e
           = tryBlock lib cfg ls (rc\<lparr>rc_request := req'\<rparr>) ctx q e"
  by (simp add: tryBlock_def executeStage_def formatStage_def sendResponse_def assms
        cong: sum.case_cong prod.case_cong option.case_cong if_cong)

lemmas example_defs =
  exampleLibraries_def listCache_def failingCache_def stalledCache_def examplePlugin_def
  guardPlugin_def auditPlugin_def exampleConfig_def
  exampleContext_def registerRequest_def lookupRequest_def literalRequest_def
  processRequest_def initializeDataSources_def resolveQuery_def computeQueryHash_def
  tryBlock_def executeStage_def formatStage_def leaving_def sendResponse_def errorResponse_def
  didEnd_def
  List.map_filter_def apqKey_def neverThrows_def calls_def quietCache_def afterListeners_def

subsection \<open>Claims about processRequest\<close>




text \<open>
  Why the listeners must not throw: a \<open>didResolveOperation\<close> that throws leaves the \<open>try\<close>
  block at once; the \<open>finally\<close> closes the wrapper, but no \<open>willSendResponse\<close> is invoked.
\<close>

lemma throwing_listener_skips_willSendResponse:
  "processRequest exampleLibraries
     (exampleConfig\<lparr>cfg_plugins := [Some guardPlugin, Some examplePlugin]\<rparr>)
     (exampleContext (literalRequest ''{ testString }'' None None)) [] =
     \<lparr>outcome = Inl (GenericError ''denied'' (Some ''FORBIDDEN'')),
      trace = [ExtRequestDidStart False False, Called ''plugin'' ParsingDidStart,
               ExtParsingDidStart, ExtParsingDidEnd, Ended ''plugin'' ParsingDidStart False,
               ExtValidationDidStart, ExtValidationDidEnd,
               Called ''guard'' DidResolveOperation, ExtRequestDidEnd],
      background = [], cacheAfter = []\<rparr>"
  by (simp add: example_defs Let_def)

text \<open>
  And why \<open>formatResponse\<close> must return: when it throws, the \<open>try\<close> block is left before
  \<open>sendResponse\<close> is called.
\<close>

lemma throwing_formatResponse_skips_willSendResponse:
  "processRequest exampleLibraries
     (exampleConfig\<lparr>cfg_formatResponse :=
        Some (\<lambda>response ctx. Inl (GenericError ''cannot format'' None))\<rparr>)
     (exampleContext (literalRequest ''{ testString }'' None None)) [] =
     \<lparr>outcome = Inl (GenericError ''cannot format'' None),
      trace = [ExtRequestDidStart False False, Called ''plugin'' ParsingDidStart,
               ExtParsingDidStart, ExtParsingDidEnd, Ended ''plugin'' ParsingDidStart False,
               ExtValidationDidStart, ExtValidationDidEnd,
               Called ''plugin'' DidResolveOperation, Called ''plugin'' ExecutionDidStart,
               ExtExecutionDidStart, ExtExecutionDidEnd, Ended ''plugin'' ExecutionDidStart False,
               ExtFormat, ExtRequestDidEnd],
      background = [], cacheAfter = []\<rparr>"
  by (simp add: example_defs Let_def)

text \<open>
  C2, amended.  For every non-empty query text \<open>Q\<close>, with a persisted-query cache configured
  that gives back what was written under \<open>apq:sha256(Q)\<close>: after the request carrying \<open>Q\<close>
  together with version 1 and the hash of \<open>Q\<close> has run, the request carrying only version 1
  and that hash returns or throws exactly what the request carrying the literal \<open>Q\<close> and no
  persisted-query extension does, for the same operation name, variables, context, libraries
  and listeners.
\<close>

theorem apq_round_trip:
  assumes "cfg_cache cfg = Some cache"
      and "Q \<noteq> []"
      and "cache_get cache (apqKey lib Q) (snd (cache_set cache (apqKey lib Q) Q c0)) = Inr (Some Q)"
  shows "outcome (processRequest lib cfg (rc\<lparr>rc_request := lookupRequest lib Q n v\<rparr>)
                    (cacheAfter (processRequest lib cfg
                                   (rc\<lparr>rc_request := registerRequest lib Q n v\<rparr>) c0)))
         = outcome (processRequest lib cfg (rc\<lparr>rc_request := literalRequest Q n v\<rparr>) c)"
proof (cases "initializeDataSources cfg (rc_context rc)")
  case (Inl e)
  then show ?thesis by (simp add: processRequest_def)
next
  case (Inr ctx)
  let ?c1 = "snd (cache_set cache (apqKey lib Q) Q c0)"
  have "resolveQuery lib cfg (registerRequest lib Q n v) c0 =
      (Inr (Q, computeQueryHash lib Q, False, True),
       [CacheSet (apqKey lib Q) Q],
       (case fst (cache_set cache (apqKey lib Q) Q c0) of
          WriteRejects e \<Rightarrow> [ConsoleWarn e]
        | _ \<Rightarrow> []),
       ?c1)"
    using register_resolves[of cfg cache "registerRequest lib Q n v"
            "\<lparr>version = 1, sha256Hash = computeQueryHash lib Q\<rparr>" Q lib c0] assms(1)
    by (simp add: registerRequest_def)
  then have reg: "cacheAfter (processRequest lib cfg
                     (rc\<lparr>rc_request := registerRequest lib Q n v\<rparr>) c0) = ?c1"
    by (simp add: processRequest_def Inr Let_def split: sum.splits prod.splits)
  have r1: "resolveQuery lib cfg (lookupRequest lib Q n v) ?c1 =
      (Inr (Q, computeQueryHash lib Q, True, False), [CacheGet (apqKey lib Q)], [], ?c1)"
    using assms by (simp add: resolveQuery_def lookupRequest_def apqKey_def Let_def)
  have r2: "resolveQuery lib cfg (literalRequest Q n v) c =
      (Inr (Q, computeQueryHash lib Q, False, False), [], [], c)"
    using assms by (simp add: resolveQuery_def literalRequest_def)
  have t: "\<And>ls q e. tryBlock lib cfg ls (rc\<lparr>rc_request := lookupRequest lib Q n v\<rparr>) ctx q e
             = tryBlock lib cfg ls (rc\<lparr>rc_request := literalRequest Q n v\<rparr>) ctx q e"
    by (rule tryBlock_request) (simp_all add: lookupRequest_def literalRequest_def)
  show ?thesis
    unfolding reg
    by (simp add: processRequest_def Inr r1 r2 t Let_def split: sum.splits prod.splits)
qed

text \<open>The round trip of \<open>{ testString }\<close> on the small server gives the data of the query.\<close>

theorem apq_round_trip_witness:
  "cfg_cache exampleConfig = Some listCache \<and>
   ''{ testString }'' \<noteq> [] \<and>
   outcome (processRequest exampleLibraries exampleConfig
              (exampleContext (lookupRequest exampleLibraries ''{ testString }'' None None))
              (cacheAfter (processRequest exampleLibraries exampleConfig
                 (exampleContext (registerRequest exampleLibraries ''{ testString }'' None None))
                 []))) =
     Inr \<lparr>errors = None, data = Some (JObj [(''testString'', JStr ''it works'')]),
          extensions = None,
          http = Some (JObj [(''x-plugin'', JStr ''seen'')])\<rparr> \<and>
   outcome (processRequest exampleLibraries exampleConfig
              (exampleContext (literalRequest ''{ testString }'' None None)) []) =
     Inr \<lparr>errors = None, data = Some (JObj [(''testString'', JStr ''it works'')]),
          extensions = None,
          http = Some (JObj [(''x-plugin'', JStr ''seen'')])\<rparr>"
  using apq_round_trip[where cfg = exampleConfig and cache = listCache
          and Q = "''{ testString }''" and lib = exampleLibraries and ?c0.0 = "[]"
          and rc = "exampleContext (literalRequest [] None None)" and n = None and v = None
          and c = "[]"]
  by (simp add: example_defs Let_def)

text \<open>
  C2 as stated fails at the empty query text: it is registered and stored, the lookup then
  finds the empty text and reports the query as not found, while the literal empty query is
  refused as missing.
\<close>

theorem apq_round_trip_empty_counterexample:
  "cache_get listCache (apqKey exampleLibraries [])
     (cacheAfter (processRequest exampleLibraries exampleConfig
        (exampleContext (registerRequest exampleLibraries [] None None)) [])) = Inr (Some []) \<and>
   outcome (processRequest exampleLibraries exampleConfig
              (exampleContext (lookupRequest exampleLibraries [] None None))
              (cacheAfter (processRequest exampleLibraries exampleConfig
                 (exampleContext (registerRequest exampleLibraries [] None None)) []))) =
     Inl PersistedQueryNotFoundError \<and>
   outcome (processRequest exampleLibraries exampleConfig
              (exampleContext (literalRequest [] None None)) []) =
     Inl (InvalidGraphQLRequestError ''Must provide query string.'')"
  by (simp add: example_defs Let_def)

text \<open>
  C4, amended.  For every request that supplies a literal query \<open>Q\<close> and a version 1
  persisted-query hash other than the digest of \<open>Q\<close>, with a persisted-query cache configured,
  \<open>processRequest\<close> throws \<open>InvalidGraphQLRequestError\<close> with the message
  \<open>provided sha does not match query\<close>, whatever the cache holds; the cache is neither read
  nor written and nothing else has happened.
\<close>

theorem apq_mismatch:
  assumes "initializeDataSources cfg (rc_context rc) = Inr ctx"
      and "cfg_cache cfg = Some cache"
      and "request_persistedQuery (rc_request rc) = Some pq"
      and "version pq = 1"
      and "request_query (rc_request rc) = Some Q"
      and "computeQueryHash lib Q \<noteq> sha256Hash pq"
  shows "processRequest lib cfg rc c =
           \<lparr>outcome = Inl (InvalidGraphQLRequestError ''provided sha does not match query''),
            trace = [], background = [], cacheAfter = c\<rparr>"
  using assms by (auto simp: processRequest_def resolveQuery_def Let_def)

theorem apq_mismatch_witness:
  "computeQueryHash exampleLibraries ''{ testString }'' \<noteq> ''0000'' \<and>
   processRequest exampleLibraries exampleConfig
     (exampleContext
        \<lparr>request_query = Some ''{ testString }'', request_operationName = None,
         request_variables = None,
         request_persistedQuery = Some \<lparr>version = 1, sha256Hash = ''0000''\<rparr>\<rparr>)
     [(''apq:0000'', ''{ other }'')] =
     \<lparr>outcome = Inl (InvalidGraphQLRequestError ''provided sha does not match query''),
      trace = [], background = [], cacheAfter = [(''apq:0000'', ''{ other }'')]\<rparr>"
  using apq_mismatch[of exampleConfig
          "exampleContext
             \<lparr>request_query = Some ''{ testString }'', request_operationName = None,
              request_variables = None,
              request_persistedQuery = Some \<lparr>version = 1, sha256Hash = ''0000''\<rparr>\<rparr>"
          "[]" listCache "\<lparr>version = 1, sha256Hash = ''0000''\<rparr>" "''{ testString }''"
          exampleLibraries "[(''apq:0000'', ''{ other }'')]"]
  by (simp add: exampleConfig_def exampleContext_def exampleLibraries_def
        initializeDataSources_def computeQueryHash_def)

text \<open>C4 as stated fails on the message: the one thrown says \<open>sha\<close>, not \<open>hash\<close>.\<close>

theorem apq_mismatch_message_counterexample:
  "outcome (processRequest exampleLibraries exampleConfig
     (exampleContext
        \<lparr>request_query = Some ''{ testString }'', request_operationName = None,
         request_variables = None,
         request_persistedQuery = Some \<lparr>version = 1, sha256Hash = ''0000''\<rparr>\<rparr>)
     []) \<noteq> Inl (InvalidGraphQLRequestError ''provided hash does not match query'')"
  by (simp add: example_defs Let_def)

text \<open>
  C5.  For every registration (query present, version 1 hash present and equal to the digest
  of the query): the write is started first of all, and the next thing that happens is the
  opening of the whole-request wrapper; what \<open>processRequest\<close> returns or throws, and all that
  happens until then, is what it returns or throws and what happens with a cache whose write
  resolves at once, so the settlement of the write is not waited for (it may never come); and
  all that comes of the write is one \<open>console.warn\<close> of the error when it is rejected, nothing
  otherwise.
\<close>

theorem register_write_detached:
  assumes "initializeDataSources cfg (rc_context rc) = Inr ctx"
      and "cfg_cache cfg = Some cache"
      and "request_persistedQuery (rc_request rc) = Some pq"
      and "version pq = 1"
      and "request_query (rc_request rc) = Some Q"
      and "sha256Hash pq = computeQueryHash lib Q"
  shows "outcome (processRequest lib cfg rc c) =
           outcome (processRequest lib (cfg\<lparr>cfg_cache := Some (quietCache cache)\<rparr>) rc c) \<and>
         trace (processRequest lib cfg rc c) =
           trace (processRequest lib (cfg\<lparr>cfg_cache := Some (quietCache cache)\<rparr>) rc c) \<and>
         take 2 (trace (processRequest lib cfg rc c)) =
           [CacheSet (apqKey lib Q) Q, ExtRequestDidStart False True] \<and>
         background (processRequest lib cfg rc c) =
           (case fst (cache_set cache (apqKey lib Q) Q c) of
              WriteRejects e \<Rightarrow> [ConsoleWarn e]
            | _ \<Rightarrow> []) \<and>
         background (processRequest lib (cfg\<lparr>cfg_cache := Some (quietCache cache)\<rparr>) rc c) = [] \<and>
         cacheAfter (processRequest lib cfg rc c) = snd (cache_set cache (apqKey lib Q) Q c)"
proof -
  have i: "initializeDataSources (cfg\<lparr>cfg_cache := Some (quietCache cache)\<rparr>) (rc_context rc)
             = Inr ctx"
    using assms(1) by (simp add: initializeDataSources_def)
  note r1 = register_resolves[OF assms(2-6), of c]
  have r2: "resolveQuery lib (cfg\<lparr>cfg_cache := Some (quietCache cache)\<rparr>) (rc_request rc) c =
      (Inr (Q, computeQueryHash lib Q, False, True), [CacheSet (apqKey lib Q) Q], [], c)"
    using register_resolves[of "cfg\<lparr>cfg_cache := Some (quietCache cache)\<rparr>" "quietCache cache"
            "rc_request rc" pq Q lib c] assms(3-6)
    by (simp add: quietCache_def)
  show ?thesis
    by (simp add: processRequest_def assms(1) i r1 r2 tryBlock_cache Let_def
          split: sum.splits prod.splits)
qed

text \<open>
  Registering on a backend that rejects every write: the data comes back, the error is logged.
  On one whose writes never settle the data comes back all the same.
\<close>

theorem register_write_detached_witness:
  "processRequest exampleLibraries (exampleConfig\<lparr>cfg_cache := Some failingCache\<rparr>)
     (exampleContext (registerRequest exampleLibraries ''{ testString }'' None None)) [] =
     \<lparr>outcome = Inr \<lparr>errors = None, data = Some (JObj [(''testString'', JStr ''it works'')]),
                     extensions = None,
          http = Some (JObj [(''x-plugin'', JStr ''seen'')])\<rparr>,
      trace = [CacheSet ''apq:sha256:{ testString }'' ''{ testString }'',
               ExtRequestDidStart False True, Called ''plugin'' ParsingDidStart,
               ExtParsingDidStart, ExtParsingDidEnd, Ended ''plugin'' ParsingDidStart False,
               ExtValidationDidStart, ExtValidationDidEnd,
               Called ''plugin'' DidResolveOperation, Called ''plugin'' ExecutionDidStart,
               ExtExecutionDidStart, ExtExecutionDidEnd, Ended ''plugin'' ExecutionDidStart False,
               ExtFormat, ExtWillSendResponse, Called ''plugin'' WillSendResponse,
               ExtRequestDidEnd],
      background = [ConsoleWarn (GenericError ''connection refused'' None)],
      cacheAfter = []\<rparr> \<and>
   processRequest exampleLibraries
     (exampleConfig\<lparr>cfg_cache := Some (quietCache failingCache)\<rparr>)
     (exampleContext (registerRequest exampleLibraries ''{ testString }'' None None)) [] =
     (processRequest exampleLibraries (exampleConfig\<lparr>cfg_cache := Some failingCache\<rparr>)
        (exampleContext (registerRequest exampleLibraries ''{ testString }'' None None)) [])
       \<lparr>background := []\<rparr> \<and>
   processRequest exampleLibraries (exampleConfig\<lparr>cfg_cache := Some stalledCache\<rparr>)
     (exampleContext (registerRequest exampleLibraries ''{ testString }'' None None)) [] =
     (processRequest exampleLibraries (exampleConfig\<lparr>cfg_cache := Some failingCache\<rparr>)
        (exampleContext (registerRequest exampleLibraries ''{ testString }'' None None)) [])
       \<lparr>background := []\<rparr>"
  using register_write_detached[of "exampleConfig\<lparr>cfg_cache := Some failingCache\<rparr>"
          "exampleContext (registerRequest exampleLibraries ''{ testString }'' None None)" "[]"
          failingCache "\<lparr>version = 1, sha256Hash = computeQueryHash exampleLibraries ''{ testString }''\<rparr>"
          "''{ testString }''" exampleLibraries "[]"]
        register_write_detached[of "exampleConfig\<lparr>cfg_cache := Some stalledCache\<rparr>"
          "exampleContext (registerRequest exampleLibraries ''{ testString }'' None None)" "[]"
          stalledCache "\<lparr>version = 1, sha256Hash = computeQueryHash exampleLibraries ''{ testString }''\<rparr>"
          "''{ testString }''" exampleLibraries "[]"]
  by (simp add: example_defs Let_def)

text \<open>
  C9.  For every lookup (version 1 hash present, no literal query, persisted-query cache
  configured) whose read of \<open>apq:<hash>\<close> resolves: when the cache returns the empty string,
  \<open>processRequest\<close> throws \<open>PersistedQueryNotFoundError\<close> having done nothing but the read,
  exactly as with a cache that has no entry; and the request counts as a persisted-query hit
  exactly when the text returned is not empty.
\<close>

theorem empty_text_is_miss:
  assumes "initializeDataSources cfg (rc_context rc) = Inr ctx"
      and "cfg_cache cfg = Some cache"
      and "request_persistedQuery (rc_request rc) = Some pq"
      and "version pq = 1"
      and "request_query (rc_request rc) = None"
      and "cache_get cache (''apq:'' @ sha256Hash pq) c = Inr got"
  shows "(got = Some [] \<longrightarrow>
            processRequest lib cfg rc c =
              \<lparr>outcome = Inl PersistedQueryNotFoundError,
               trace = [CacheGet (''apq:'' @ sha256Hash pq)], background = [], cacheAfter = c\<rparr> \<and>
            processRequest lib cfg rc c =
              processRequest lib
                (cfg\<lparr>cfg_cache := Some (cache\<lparr>cache_get := \<lambda>k c. Inr None\<rparr>)\<rparr>) rc c) \<and>
         (persistedQueryHit lib cfg (rc_request rc) c \<longleftrightarrow> (\<exists>q. got = Some q \<and> q \<noteq> []))"
  using assms
  by (auto simp: processRequest_def resolveQuery_def Let_def persistedQueryHit_def
        initializeDataSources_def split: option.splits)

theorem empty_text_is_miss_witness:
  "cache_get listCache (''apq:'' @ ''abc'') [(''apq:abc'', [])] = Inr (Some []) \<and>
   processRequest exampleLibraries exampleConfig
     (exampleContext
        \<lparr>request_query = None, request_operationName = None, request_variables = None,
         request_persistedQuery = Some \<lparr>version = 1, sha256Hash = ''abc''\<rparr>\<rparr>)
     [(''apq:abc'', [])] =
     \<lparr>outcome = Inl PersistedQueryNotFoundError, trace = [CacheGet ''apq:abc''],
      background = [], cacheAfter = [(''apq:abc'', [])]\<rparr> \<and>
   \<not> persistedQueryHit exampleLibraries exampleConfig
        \<lparr>request_query = None, request_operationName = None, request_variables = None,
         request_persistedQuery = Some \<lparr>version = 1, sha256Hash = ''abc''\<rparr>\<rparr>
        [(''apq:abc'', [])]"
  using empty_text_is_miss[of exampleConfig
          "exampleContext
             \<lparr>request_query = None, request_operationName = None, request_variables = None,
              request_persistedQuery = Some \<lparr>version = 1, sha256Hash = ''abc''\<rparr>\<rparr>"
          "[]" listCache "\<lparr>version = 1, sha256Hash = ''abc''\<rparr>" "[(''apq:abc'', [])]" "Some []"
          exampleLibraries]
  by (simp add: exampleConfig_def exampleContext_def listCache_def initializeDataSources_def)

section \<open>Properties of the HTTP-query coordinator\<close>

subsection \<open>Response objects and members\<close>

lemma map_of_deleteKey: "k' \<noteq> k \<Longrightarrow> map_of (deleteKey k kvs) k' = map_of kvs k'"
  by (induction kvs) (auto simp: deleteKey_def)

lemma map_of_setKey: "k' \<noteq> k \<Longrightarrow> map_of (setKey k v kvs) k' = map_of kvs k'"
  by (induction kvs) auto

lemma map_of_stripCacheControl:
  "k \<noteq> ''extensions'' \<Longrightarrow> map_of (stripCacheControl response) k = map_of response k"
  by (simp add: stripCacheControl_def map_of_deleteKey map_of_setKey Let_def split: option.splits)

lemma map_of_sentResponse:
  "k \<noteq> ''extensions'' \<Longrightarrow> map_of (sentResponse cc response) k = map_of response k"
  by (simp add: sentResponse_def map_of_stripCacheControl split: option.splits)

lemma sentResponse_errors_only: "sentResponse cc [(''errors'', x)] = [(''errors'', x)]"
  by (simp add: sentResponse_def stripCacheControl_def split: option.splits)

lemma requestMember_returns:
  "fst (requestMember env opts hr g i params) = Inr result \<Longrightarrow>
   \<exists>call. requestMember env opts hr g i params = (Inr result, Some call)"
  by (auto simp: requestMember_def split: sum.splits)

lemma runHttpQuery_single_rejected:
  assumes "hq_options request = Inr resolved"
      and "requestPayload (hq_method request) (hq_query request)
             = Inr (isGetRequest, Single requestParams)"
      and "prepareInvocation env (withDebugDefault env resolved) (hq_request request)
             isGetRequest 0 requestParams = Inl (HttpQueryError statusCode message g hdrs)"
  shows "runHttpQuery env request = (Inl (HttpQueryError statusCode message g hdrs), [])"
  by (simp add: runHttpQuery_def assms Let_def requestMember_def catchMember_def
        List.map_filter_def)

lemma prepareInvocation_hook:
  "prepareInvocation env opts hr g i params = Inr call \<Longrightarrow>
   pc_willExecuteOperation (inv_config call) = (if g then Some getSupportsOnlyQuery else None)"
  by (auto simp: prepareInvocation_def split: sum.splits)

lemma processor_refuses:
  assumes "pc_willExecuteOperation (inv_config call) = Some getSupportsOnlyQuery"
      and "resolvedOperation call = Some operation"
      and "op_operation operation \<noteq> OpQuery"
  shows "GraphQLRequestProcessor_processRequest call =
           (Inl (HttpQueryError 405 ''GET supports only query operation'' False
                   (Some [(''Allow'', ''POST'')])),
            [RESOLVE_QUERY, PARSE, VALIDATE, RESOLVE_OPERATION])"
  using assms
  by (auto simp: GraphQLRequestProcessor_processRequest_def resolvedOperation_def Let_def
        getSupportsOnlyQuery_def split: sum.splits if_splits)

text \<open>In a batch every member's promise resolves, so \<open>Promise.all\<close> does.\<close>

lemma catchMember_batch: "\<exists>response. catchMember env opts True r = Inr response"
  by (cases r) (simp_all add: catchMember_def)

lemma awaitAll_resolved:
  "(\<And>r. r \<in> set rs \<Longrightarrow> \<exists>response. r = Inr response) \<Longrightarrow> \<exists>responses. awaitAll rs = Inr responses"
proof (induction rs)
  case Nil
  then show ?case by simp
next
  case (Cons r rs)
  obtain response where "r = Inr response"
    using Cons.prems by (metis list.set_intros(1))
  moreover obtain responses where "awaitAll rs = Inr responses"
    using Cons by (metis list.set_intros(2))
  ultimately show ?case by simp
qed

lemma batch_never_fails:
  assumes "hq_options request = Inr resolved"
      and "requestPayload (hq_method request) (hq_query request) = Inr (isGetRequest, Batch members)"
  shows "\<exists>response. fst (runHttpQuery env request) = Inr response"
proof -
  let ?opts = "withDebugDefault env resolved"
  let ?rs = "map (\<lambda>r. catchMember env ?opts True (fst r))
               (map (\<lambda>(i, requestParams).
                       requestMember env ?opts (hq_request request) isGetRequest i requestParams)
                  (enumerate 0 members))"
  have "\<And>r. r \<in> set ?rs \<Longrightarrow> \<exists>response. r = Inr response"
    using catchMember_batch by fastforce
  then obtain responses where "awaitAll ?rs = Inr responses"
    using awaitAll_resolved by blast
  then show ?thesis
    by (simp add: runHttpQuery_def assms Let_def respond_def)
qed

text \<open>A batch of any length is answered slot by slot.\<close>

lemma awaitAll_batch:
  "awaitAll (map (\<lambda>r. catchMember env opts True (fst r)) results)
     = Inr (map (\<lambda>r. batchSlot env opts (fst r)) results)"
proof (induction results)
  case Nil
  then show ?case by simp
next
  case (Cons r results)
  then show ?case
    by (cases "fst r") (simp_all add: catchMember_def batchSlot_def)
qed

lemma respond_batch:
  "respond env cc True slots =
     Inr (envelope env (responseHeaders env cc slots)
            (JArr (map (\<lambda>slot. JObj (sentResponse cc slot)) slots)))"
  by (simp add: respond_def Let_def comp_def)

lemma batch_slots:
  assumes "hq_options request = Inr resolved"
      and "requestPayload (hq_method request) (hq_query request) = Inr (isGetRequest, Batch members)"
      and "results = map (\<lambda>(i, requestParams).
                            requestMember env (withDebugDefault env resolved) (hq_request request)
                              isGetRequest i requestParams)
                       (enumerate 0 members)"
      and "cc = (if List.map_filter snd results = [] then None
                 else cacheControlOf (withDebugDefault env resolved))"
      and "slots = map (\<lambda>r. batchSlot env (withDebugDefault env resolved) (fst r)) results"
  shows "fst (runHttpQuery env request) =
           Inr (envelope env (responseHeaders env cc slots)
                  (JArr (map (\<lambda>slot. JObj (sentResponse cc slot)) slots)))"
proof -
  have "fst (runHttpQuery env request) = respond env cc True slots"
    unfolding assms(3,4,5)
    using awaitAll_batch[of env "withDebugDefault env resolved"
            "map (\<lambda>(i, requestParams).
                    requestMember env (withDebugDefault env resolved) (hq_request request)
                      isGetRequest i requestParams)
               (enumerate 0 members)"]
    by (simp add: runHttpQuery_def assms(1,2) Let_def del: map_map)
  then show ?thesis
    by (simp only: respond_batch)
qed

text \<open>Whatever \<open>runHttpQuery\<close> throws is an \<open>HttpQueryError\<close>.\<close>

lemma awaitAll_length: "awaitAll rs = Inr responses \<Longrightarrow> length responses = length rs"
proof (induction rs arbitrary: responses)
  case Nil
  then show ?case by simp
next
  case (Cons r rs)
  then show ?case
    by (cases r) (auto split: sum.splits)
qed

lemma respond_throws:
  assumes "respond env cacheControl isBatch responses = Inl e"
      and "responses \<noteq> []"
  shows "\<exists>statusCode message g hdrs. e = HttpQueryError statusCode message g hdrs"
  using assms
  by (cases responses)
     (auto simp: respond_def Let_def throwHttpGraphQLError_def
        split: if_splits list.splits option.splits)

lemma runHttpQuery_throws:
  assumes "fst (runHttpQuery env request) = Inl e"
  shows "\<exists>statusCode message g hdrs. e = HttpQueryError statusCode message g hdrs"
proof (cases "hq_options request")
  case (Inl message)
  then show ?thesis
    using assms by (auto simp: runHttpQuery_def throwHttpGraphQLError_def)
next
  case (Inr resolved)
  show ?thesis
  proof (cases "requestPayload (hq_method request) (hq_query request)")
    case (Inl e')
    then have "e = e'"
      using assms Inr by (simp add: runHttpQuery_def)
    then show ?thesis
      using Inl by (auto simp: requestPayload_def Let_def split: if_splits option.splits)
  next
    case (Inr found)
    obtain isGetRequest payload where found: "found = (isGetRequest, payload)"
      by (cases found)
    let ?opts = "withDebugDefault env resolved"
    let ?isBatch = "case payload of Single params \<Rightarrow> False | Batch members \<Rightarrow> True"
    let ?members = "case payload of Single params \<Rightarrow> [params] | Batch members \<Rightarrow> members"
    let ?results = "map (\<lambda>(i, requestParams).
                           requestMember env ?opts (hq_request request) isGetRequest i requestParams)
                      (enumerate 0 ?members)"
    let ?settled = "map (\<lambda>r. catchMember env ?opts ?isBatch (fst r)) ?results"
    have nonempty: "?members \<noteq> []"
      using Inr found
      by (auto simp: requestPayload_def Let_def split: if_splits option.splits payload.splits)
    show ?thesis
    proof (cases "awaitAll ?settled")
      case (Inl rejected)
      then show ?thesis
        using assms \<open>hq_options request = Inr resolved\<close> Inr found
        by (cases rejected) (auto simp: runHttpQuery_def Let_def throwHttpGraphQLError_def)
    next
      case (Inr responses)
      then have "length responses = length ?members"
        using awaitAll_length by fastforce
      then have "responses \<noteq> []"
        using nonempty by auto
      moreover have "respond env
            (if List.map_filter snd ?results = [] then None else cacheControlOf ?opts)
            ?isBatch responses = Inl e"
        using assms \<open>hq_options request = Inr resolved\<close>
          \<open>requestPayload (hq_method request) (hq_query request) = Inr found\<close> found Inr
        by (simp add: runHttpQuery_def Let_def)
      ultimately show ?thesis
        using respond_throws by blast
    qed
  qed
qed

text \<open>An error of a batch member is answered in the member's slot.\<close>

lemma batch_slot_error:
  assumes "hq_options request = Inr resolved"
      and "requestPayload (hq_method request) (hq_query request) = Inr (isGetRequest, Batch ms)"
      and "i < length ms"
      and "fst (requestMember env (withDebugDefault env resolved) (hq_request request)
                  isGetRequest i (ms ! i)) = Inl e"
  shows "\<exists>response sent.
           fst (runHttpQuery env request) = Inr response \<and>
           graphqlResponse response = JSON_stringify env (JArr (map JObj sent)) @ [CHR 0x0A] \<and>
           length sent = length ms \<and>
           sent ! i = [(''errors'',
                        JArr (formatApolloErrors env [e]
                                \<lparr>fo_debug = opt_debug (withDebugDefault env resolved),
                                 fo_formatter = None\<rparr>))]"
proof -
  let ?opts = "withDebugDefault env resolved"
  let ?results = "map (\<lambda>(i, requestParams).
                         requestMember env ?opts (hq_request request) isGetRequest i requestParams)
                    (enumerate 0 ms)"
  let ?cc = "if List.map_filter snd ?results = [] then None else cacheControlOf ?opts"
  let ?slots = "map (\<lambda>r. batchSlot env ?opts (fst r)) ?results"
  let ?sent = "map (sentResponse ?cc) ?slots"
  have run: "fst (runHttpQuery env request) =
               Inr (envelope env (responseHeaders env ?cc ?slots)
                      (JArr (map (\<lambda>slot. JObj (sentResponse ?cc slot)) ?slots)))"
    by (rule batch_slots[OF assms(1,2) refl refl refl])
  have body: "map (\<lambda>slot. JObj (sentResponse ?cc slot)) ?slots = map JObj ?sent"
    by (simp add: comp_def)
  have "?results ! i =
          requestMember env ?opts (hq_request request) isGetRequest i (ms ! i)"
    using assms(3) by (simp add: nth_enumerate_eq)
  then have "?slots ! i = batchSlot env ?opts (Inl e)"
    using assms(3,4) by simp
  then have slot: "?sent ! i =
      [(''errors'', JArr (formatApolloErrors env [e]
                            \<lparr>fo_debug = opt_debug ?opts, fo_formatter = None\<rparr>))]"
    using assms(3) by (simp add: batchSlot_def sentResponse_errors_only)
  have "graphqlResponse (envelope env (responseHeaders env ?cc ?slots) (JArr (map JObj ?sent)))
          = JSON_stringify env (JArr (map JObj ?sent)) @ [CHR 0x0A]"
    by (simp add: envelope_def prettyJSONStringify_def Let_def del: decimal.simps)
  moreover have "length ?sent = length ms"
    by simp
  ultimately show ?thesis
    using run slot unfolding body by blast
qed

text \<open>The processor invocations of \<open>runHttpQuery\<close> are those of its members, in their order.\<close>

lemma map_filter_map: "List.map_filter g (map f xs) = List.map_filter (\<lambda>x. g (f x)) xs"
  by (simp add: List.map_filter_def filter_map comp_def)

lemma runHttpQuery_invocations:
  assumes "hq_options request = Inr resolved"
      and "requestPayload (hq_method request) (hq_query request) = Inr (isGetRequest, payload)"
  shows "snd (runHttpQuery env request) =
           List.map_filter
             (\<lambda>(j, params). snd (requestMember env (withDebugDefault env resolved)
                                     (hq_request request) isGetRequest j params))
             (enumerate 0 (payloadMembers payload))"
proof -
  have "snd (runHttpQuery env request) =
          List.map_filter snd
            (map (\<lambda>(i, requestParams).
                    requestMember env (withDebugDefault env resolved) (hq_request request)
                      isGetRequest i requestParams)
               (enumerate 0 (payloadMembers payload)))"
    by (simp add: runHttpQuery_def assms Let_def payloadMembers_def
          split: sum.splits error.splits)
  then show ?thesis
    by (simp add: map_filter_map split_def)
qed

lemma member_rejected:
  "prepareInvocation env opts hr g i params = Inl e \<Longrightarrow>
   requestMember env opts hr g i params = (Inl e, None)"
  by (simp add: requestMember_def)

lemma prepareInvocation_request:
  "prepareInvocation env opts hr g i params = Inr call \<Longrightarrow>
   decodeParams env hr g params = Inr (inv_request call)"
  by (auto simp: prepareInvocation_def split: sum.splits)

text \<open>The decimal digits.\<close>

lemma digit_simps:
  "digit 0 = CHR ''0''" "digit (Suc 0) = CHR ''1''" "digit 2 = CHR ''2''" "digit 3 = CHR ''3''"
  "digit 4 = CHR ''4''" "digit 5 = CHR ''5''" "digit 6 = CHR ''6''" "digit 7 = CHR ''7''"
  "digit 8 = CHR ''8''" "digit 9 = CHR ''9''"
  by (simp_all add: digit_def char_of_def bit_Suc_0_iff)

lemmas exampleHttp_defs =
  exampleHttp_def exampleOptions_def exampleCollaborators_def exampleProcessor_def
  exampleCall_def exampleFormatError_def quoted_def
  runHttpQuery_def requestPayload_def withDebugDefault_def requestMember_def
  prepareInvocation_def decodeParams_def decodeExtensions_def checkQueryString_def
  decodeVariables_def createContext_def attachDataSources_def cacheControlOf_def
  catchMember_def respond_def responseHeaders_def sentResponse_def stripCacheControl_def
  envelope_def prettyJSONStringify_def throwHttpGraphQLError_def formatWith_def
  getSupportsOnlyQuery_def queriesMustBeStrings_def payloadMembers_def
  List.map_filter_def spread_def deleteKey_def enumerate_eq_zip Let_def

subsection \<open>Claims about runHttpQuery\<close>

text \<open>
  C3.  For every batched payload \<open>[A, B]\<close> of a GET or POST request whose options resolve,
  where the processing of \<open>A\<close> throws and the processing of \<open>B\<close> returns a result:
  \<open>runHttpQuery\<close> throws nothing and returns normally (the status is then 200).  The body
  returned is the stringified two-element array, followed by a line feed, whose slot 0 is
  \<open>{errors: [...]}\<close> with the formatted error of \<open>A\<close> and whose slot 1 is the result of \<open>B\<close>
  as it is sent, that is with its \<open>data\<close> and \<open>errors\<close> untouched; the headers returned are
  the response headers with the \<open>Content-Length\<close> of that body.
\<close>

theorem batch_isolation:
  assumes "hq_options request = Inr resolved"
      and "requestPayload (hq_method request) (hq_query request) = Inr (isGetRequest, Batch [A, B])"
      and "fst (requestMember env (withDebugDefault env resolved) (hq_request request)
                  isGetRequest 0 A) = Inl e"
      and "fst (requestMember env (withDebugDefault env resolved) (hq_request request)
                  isGetRequest 1 B) = Inr resultB"
  shows "let cacheControl = cacheControlOf (withDebugDefault env resolved);
             slotA = [(''errors'',
                       JArr (formatApolloErrors env [e]
                               \<lparr>fo_debug = opt_debug (withDebugDefault env resolved),
                                fo_formatter = None\<rparr>))];
             slotB = sentResponse cacheControl resultB;
             stringified = JSON_stringify env (JArr [JObj slotA, JObj slotB]) @ [CHR 0x0A]
         in fst (runHttpQuery env request) =
              Inr \<lparr>graphqlResponse = stringified,
                   responseInit =
                     \<lparr>headers = setKey ''Content-Length'' (decimal (byteLength env stringified))
                                  (responseHeaders env cacheControl [slotA, resultB])\<rparr>\<rparr> \<and>
            map_of slotB ''data'' = map_of resultB ''data'' \<and>
            map_of slotB ''errors'' = map_of resultB ''errors''"
proof -
  let ?opts = "withDebugDefault env resolved"
  obtain call where "requestMember env ?opts (hq_request request) isGetRequest 1 B
      = (Inr resultB, Some call)"
    using requestMember_returns[OF assms(4)] by blast
  then have b: "requestMember env ?opts (hq_request request) isGetRequest (Suc 0) B
      = (Inr resultB, Some call)"
    by simp
  obtain ia where a: "requestMember env ?opts (hq_request request) isGetRequest 0 A = (Inl e, ia)"
    using assms(3) by (metis fst_conv surj_pair)
  show ?thesis
    by (cases ia)
       (simp_all add: runHttpQuery_def assms(1,2) a b Let_def catchMember_def List.map_filter_def
          respond_def sentResponse_errors_only envelope_def prettyJSONStringify_def
          map_of_sentResponse del: decimal.simps)
qed

text \<open>
  A batch whose first member sends a number as its query and whose second asks for
  \<open>cached\<close>: the answer has the error in slot 0 and the data in slot 1, the cache-control
  extension gone from the body and the header computed from it present.
\<close>

theorem batch_isolation_witness:
  "fst (requestMember exampleCollaborators (withDebugDefault exampleCollaborators exampleOptions)
          (JObj [(''method'', JStr ''POST'')]) False 0 [(''query'', JNum 5)]) =
     Inl (HttpQueryError 400 ''GraphQL queries must be strings.'' False None) \<and>
   fst (requestMember exampleCollaborators (withDebugDefault exampleCollaborators exampleOptions)
          (JObj [(''method'', JStr ''POST'')]) False 1 [(''query'', JStr ''{ cached }'')]) =
     Inr [(''data'', JObj [(''cached'', JStr ''yes'')]),
          (''extensions'', JObj [(''cacheControl'', JObj [(''version'', JNum 1)])])] \<and>
   fst (runHttpQuery exampleCollaborators
          (exampleHttp ''POST''
             (Batch [[(''query'', JNum 5)], [(''query'', JStr ''{ cached }'')]]))) =
     Inr \<lparr>graphqlResponse =
            exampleStringify
              (JArr [JObj [(''errors'',
                            JArr [JObj [(''message'',
                                         JStr ''GraphQL queries must be strings.'')]])],
                     JObj [(''data'', JObj [(''cached'', JStr ''yes'')])]])
            @ [CHR 0x0A],
          responseInit =
            \<lparr>headers = [(''Content-Type'', ''application/json''),
                        (''Cache-Control'', ''max-age=60, public''),
                        (''Content-Length'', ''88'')]\<rparr>\<rparr>"
  using batch_isolation[where request = "exampleHttp ''POST''
             (Batch [[(''query'', JNum 5)], [(''query'', JStr ''{ cached }'')]])"
          and resolved = exampleOptions and isGetRequest = False
          and A = "[(''query'', JNum 5)]" and B = "[(''query'', JStr ''{ cached }'')]"
          and env = exampleCollaborators
          and e = "HttpQueryError 400 ''GraphQL queries must be strings.'' False None"
          and resultB = "[(''data'', JObj [(''cached'', JStr ''yes'')]),
                          (''extensions'', JObj [(''cacheControl'', JObj [(''version'', JNum 1)])])]"]
  by (simp add: exampleHttp_defs digit_simps)

text \<open>
  C6.  For every non-batched GET or POST request whose options resolve and whose processing
  returns a result: when the result has truthy \<open>errors\<close> and no \<open>data\<close>, \<open>runHttpQuery\<close>
  throws an \<open>HttpQueryError\<close> of status 400 whose message is the stringified \<open>{errors}\<close>;
  otherwise it returns normally (the status is then 200): the body is the stringified result
  as it is sent, followed by a line feed, and the headers are the response headers with the
  \<open>Content-Length\<close> of that body.
\<close>

theorem single_status:
  assumes "hq_options request = Inr resolved"
      and "requestPayload (hq_method request) (hq_query request)
             = Inr (isGetRequest, Single requestParams)"
      and "fst (requestMember env (withDebugDefault env resolved) (hq_request request)
                  isGetRequest 0 requestParams) = Inr result"
  shows "let cacheControl = cacheControlOf (withDebugDefault env resolved);
             sent = sentResponse cacheControl result;
             stringified = JSON_stringify env (JObj sent) @ [CHR 0x0A]
         in fst (runHttpQuery env request) =
              (if truthyProp (map_of result ''errors'') \<and> map_of result ''data'' = None
               then Inl (HttpQueryError 400
                           (JSON_stringify env (JObj [(''errors'', the (map_of result ''errors''))])
                              @ [CHR 0x0A])
                           True (Some [(''Content-Type'', ''application/json'')]))
               else Inr \<lparr>graphqlResponse = stringified,
                         responseInit =
                           \<lparr>headers =
                              setKey ''Content-Length'' (decimal (byteLength env stringified))
                                (responseHeaders env cacheControl [result])\<rparr>\<rparr>) \<and>
            map_of sent ''data'' = map_of result ''data'' \<and>
            map_of sent ''errors'' = map_of result ''errors''"
proof -
  let ?opts = "withDebugDefault env resolved"
  obtain call where m: "requestMember env ?opts (hq_request request) isGetRequest 0 requestParams
      = (Inr result, Some call)"
    using requestMember_returns[OF assms(3)] by blast
  show ?thesis
    by (simp add: runHttpQuery_def assms(1,2) m Let_def catchMember_def List.map_filter_def
          respond_def map_of_sentResponse throwHttpGraphQLError_def truthyProp_def
          envelope_def prettyJSONStringify_def
          del: decimal.simps split: option.splits)
qed

text \<open>
  A query that does not parse gives errors without data, and so status 400; the query
  \<open>cached\<close> gives data, and so the body and the headers of a normal return.
\<close>

theorem single_status_witness:
  "fst (requestMember exampleCollaborators (withDebugDefault exampleCollaborators exampleOptions)
          (JObj [(''method'', JStr ''POST'')]) False 0 [(''query'', JStr ''{ oops'')]) =
     Inr [(''errors'', JArr [JObj [(''message'', JStr ''Syntax Error'')]])] \<and>
   fst (runHttpQuery exampleCollaborators
          (exampleHttp ''POST'' (Single [(''query'', JStr ''{ oops'')]))) =
     Inl (HttpQueryError 400
            (exampleStringify
               (JObj [(''errors'', JArr [JObj [(''message'', JStr ''Syntax Error'')]])])
             @ [CHR 0x0A])
            True (Some [(''Content-Type'', ''application/json'')])) \<and>
   fst (requestMember exampleCollaborators (withDebugDefault exampleCollaborators exampleOptions)
          (JObj [(''method'', JStr ''POST'')]) False 0 [(''query'', JStr ''{ cached }'')]) =
     Inr [(''data'', JObj [(''cached'', JStr ''yes'')]),
          (''extensions'', JObj [(''cacheControl'', JObj [(''version'', JNum 1)])])] \<and>
   fst (runHttpQuery exampleCollaborators
          (exampleHttp ''POST'' (Single [(''query'', JStr ''{ cached }'')]))) =
     Inr \<lparr>graphqlResponse =
            exampleStringify (JObj [(''data'', JObj [(''cached'', JStr ''yes'')])]) @ [CHR 0x0A],
          responseInit =
            \<lparr>headers = [(''Content-Type'', ''application/json''),
                        (''Cache-Control'', ''max-age=60, public''),
                        (''Content-Length'', ''26'')]\<rparr>\<rparr>"
  using single_status[where request = "exampleHttp ''POST'' (Single [(''query'', JStr ''{ oops'')])"
          and resolved = exampleOptions and isGetRequest = False
          and requestParams = "[(''query'', JStr ''{ oops'')]" and env = exampleCollaborators
          and result = "[(''errors'', JArr [JObj [(''message'', JStr ''Syntax Error'')]])]"]
        single_status[where request = "exampleHttp ''POST'' (Single [(''query'', JStr ''{ cached }'')])"
          and resolved = exampleOptions and isGetRequest = False
          and requestParams = "[(''query'', JStr ''{ cached }'')]" and env = exampleCollaborators
          and result = "[(''data'', JObj [(''cached'', JStr ''yes'')]),
                         (''extensions'', JObj [(''cacheControl'', JObj [(''version'', JNum 1)])])]"]
  by (simp add: exampleHttp_defs truthyProp_def digit_simps)

text \<open>
  C7.  For every GET request (its payload the query-string map) whose options resolve, whose
  operation gets as far as the processor, and whose resolved operation is not a query:
  \<open>runHttpQuery\<close> throws an \<open>HttpQueryError\<close> of status 405 with the message
  \<open>GET supports only query operation\<close> and the header \<open>Allow: POST\<close>, after one processor
  invocation that never reached EXECUTE.
\<close>

theorem get_only_queries:
  assumes "hq_method request = ''GET''"
      and "hq_options request = Inr resolved"
      and "hq_query request = Some (Single requestParams)"
      and "requestParams \<noteq> []"
      and "prepareInvocation (withProcessor env) (withDebugDefault (withProcessor env) resolved)
             (hq_request request) True 0 requestParams = Inr call"
      and "resolvedOperation call = Some operation"
      and "op_operation operation \<noteq> OpQuery"
  shows "runHttpQuery (withProcessor env) request =
           (Inl (HttpQueryError 405 ''GET supports only query operation'' False
                   (Some [(''Allow'', ''POST'')])), [call]) \<and>
         EXECUTE \<notin> set (snd (GraphQLRequestProcessor_processRequest call))"
proof -
  have p: "GraphQLRequestProcessor_processRequest call =
           (Inl (HttpQueryError 405 ''GET supports only query operation'' False
                   (Some [(''Allow'', ''POST'')])),
            [RESOLVE_QUERY, PARSE, VALIDATE, RESOLVE_OPERATION])"
    using processor_refuses[OF _ assms(6,7)] prepareInvocation_hook[OF assms(5)] by simp
  have pl: "requestPayload (hq_method request) (hq_query request)
              = Inr (True, Single requestParams)"
    using assms(1,3,4) by (simp add: requestPayload_def)
  have proc: "processor (withProcessor env) call
                = fst (GraphQLRequestProcessor_processRequest call)"
    by (simp add: withProcessor_def)
  have "runHttpQuery (withProcessor env) request =
           (Inl (HttpQueryError 405 ''GET supports only query operation'' False
                   (Some [(''Allow'', ''POST'')])), [call])"
    by (simp add: runHttpQuery_def assms(2) pl Let_def requestMember_def assms(5) proc p
          catchMember_def List.map_filter_def)
  then show ?thesis by (simp add: p)
qed

text \<open>A mutation sent by GET to the small server.\<close>

theorem get_only_queries_witness:
  "resolvedOperation
     (exampleCall True ''GET'' [(''query'', JStr ''mutation { testMutation }'')] None) =
     Some \<lparr>op_operation = OpMutation, op_name = None\<rparr> \<and>
   runHttpQuery (withProcessor exampleCollaborators)
       (exampleHttp ''GET'' (Single [(''query'', JStr ''mutation { testMutation }'')])) =
     (Inl (HttpQueryError 405 ''GET supports only query operation'' False
             (Some [(''Allow'', ''POST'')])),
      [exampleCall True ''GET'' [(''query'', JStr ''mutation { testMutation }'')] None]) \<and>
   EXECUTE \<notin> set (snd (GraphQLRequestProcessor_processRequest
       (exampleCall True ''GET'' [(''query'', JStr ''mutation { testMutation }'')] None)))"
  using get_only_queries[where request = "exampleHttp ''GET''
             (Single [(''query'', JStr ''mutation { testMutation }'')])"
          and resolved = exampleOptions
          and requestParams = "[(''query'', JStr ''mutation { testMutation }'')]"
          and env = exampleCollaborators
          and call = "exampleCall True ''GET'' [(''query'', JStr ''mutation { testMutation }'')] None"
          and operation = "\<lparr>op_operation = OpMutation, op_name = None\<rparr>"]
  by (simp add: exampleHttp_def exampleOptions_def exampleCollaborators_def exampleEngine_def
        exampleCall_def withProcessor_def withDebugDefault_def prepareInvocation_def
        decodeParams_def decodeExtensions_def checkQueryString_def decodeVariables_def
        createContext_def attachDataSources_def cacheControlOf_def resolvedOperation_def)

text \<open>
  C8, amended.  For every operation of a GET or POST request whose options resolve (the one
  object of the payload, or the \<open>i\<close>-th member of a batch) whose extensions, for GET, decode
  and whose \<open>query\<close> is truthy and not a string: its processing throws, without any
  processor invocation, an \<open>HttpQueryError\<close> of status 400 whose message is
  \<open>GraphQL queries must be strings.\<close>, followed by the explanation when the value has
  \<open>kind === 'Document'\<close>.  When the payload is not a batch, \<open>runHttpQuery\<close> throws that
  error, no processor invocation having been made; when it is a batch, \<open>runHttpQuery\<close>
  returns normally an array with one slot for each member, and slot \<open>i\<close> is
  \<open>{errors: [...]}\<close> with that error formatted.
\<close>

theorem query_must_be_string:
  assumes "hq_options request = Inr resolved"
      and "requestPayload (hq_method request) (hq_query request) = Inr (isGetRequest, payload)"
      and "i < length (payloadMembers payload)"
      and "payloadMembers payload ! i = requestParams"
      and "decodeExtensions env isGetRequest requestParams = Inr exts"
      and "map_of requestParams ''query'' = Some queryString"
      and "truthy queryString"
      and "\<not> isString queryString"
  shows "let refusal =
               HttpQueryError 400
                 (if kindOf queryString = Some (JStr ''Document'')
                  then ''GraphQL queries must be strings. It looks like you're sending the '' @
                       ''internal graphql-js representation of a parsed query in your '' @
                       ''request instead of a request in the GraphQL query language. You '' @
                       ''can convert an AST to a string using the `print` function from '' @
                       ''`graphql`, or use a client like `apollo-client` which converts '' @
                       ''the internal representation to a string for you.''
                  else ''GraphQL queries must be strings.'')
                 False None
         in requestMember env (withDebugDefault env resolved) (hq_request request)
              isGetRequest i requestParams = (Inl refusal, None) \<and>
            (case payload of
               Single params \<Rightarrow> runHttpQuery env request = (Inl refusal, [])
             | Batch ms \<Rightarrow>
                 (\<exists>response sent.
                    fst (runHttpQuery env request) = Inr response \<and>
                    graphqlResponse response
                      = JSON_stringify env (JArr (map JObj sent)) @ [CHR 0x0A] \<and>
                    length sent = length ms \<and>
                    sent ! i =
                      [(''errors'',
                        JArr (formatApolloErrors env [refusal]
                                \<lparr>fo_debug = opt_debug (withDebugDefault env resolved),
                                 fo_formatter = None\<rparr>))]))"
proof -
  let ?opts = "withDebugDefault env resolved"
  let ?refusal = "HttpQueryError 400 (queriesMustBeStrings queryString) False None"
  have p: "prepareInvocation env ?opts (hq_request request) isGetRequest i requestParams
             = Inl ?refusal"
    using assms(5-8)
    by (simp add: prepareInvocation_def decodeParams_def checkQueryString_def)
  then have m: "requestMember env ?opts (hq_request request) isGetRequest i requestParams
                  = (Inl ?refusal, None)"
    by (rule member_rejected)
  have c: "case payload of
          Single params \<Rightarrow> runHttpQuery env request = (Inl ?refusal, [])
        | Batch ms \<Rightarrow>
            (\<exists>response sent.
               fst (runHttpQuery env request) = Inr response \<and>
               graphqlResponse response = JSON_stringify env (JArr (map JObj sent)) @ [CHR 0x0A] \<and>
               length sent = length ms \<and>
               sent ! i =
                 [(''errors'',
                   JArr (formatApolloErrors env [?refusal]
                           \<lparr>fo_debug = opt_debug ?opts, fo_formatter = None\<rparr>))])"
  proof (cases payload)
    case (Single params)
    then have "params = requestParams" and "i = 0"
      using assms(3,4) by (simp_all add: payloadMembers_def)
    then show ?thesis
      using runHttpQuery_single_rejected[OF assms(1) assms(2)[unfolded Single]] p Single
      by simp
  next
    case (Batch ms)
    then have "i < length ms" and "ms ! i = requestParams"
      using assms(3,4) by (simp_all add: payloadMembers_def)
    then show ?thesis
      using batch_slot_error[OF assms(1) assms(2)[unfolded Batch], of i env ?refusal] m Batch
      by simp
  qed
  have message:
    "(if kindOf queryString = Some (JStr ''Document'')
      then ''GraphQL queries must be strings. It looks like you're sending the '' @
           ''internal graphql-js representation of a parsed query in your '' @
           ''request instead of a request in the GraphQL query language. You '' @
           ''can convert an AST to a string using the `print` function from '' @
           ''`graphql`, or use a client like `apollo-client` which converts '' @
           ''the internal representation to a string for you.''
      else ''GraphQL queries must be strings.'') = queriesMustBeStrings queryString"
    by (simp only: queriesMustBeStrings_def)
  show ?thesis
    unfolding Let_def message by (rule conjI[OF m c])
qed

text \<open>
  An object sent as the query, a parsed document sent as the query, and a parsed document
  sent as the query of the second member of a batch.
\<close>

theorem query_must_be_string_witness:
  "truthy (JObj [(''kind'', JStr ''Document'')]) \<and>
   \<not> isString (JObj [(''kind'', JStr ''Document'')]) \<and>
   runHttpQuery exampleCollaborators
     (exampleHttp ''POST'' (Single [(''query'', JObj [(''kind'', JStr ''Field'')])])) =
     (Inl (HttpQueryError 400 ''GraphQL queries must be strings.'' False None), []) \<and>
   runHttpQuery exampleCollaborators
     (exampleHttp ''POST'' (Single [(''query'', JObj [(''kind'', JStr ''Document'')])])) =
     (Inl (HttpQueryError 400
             (''GraphQL queries must be strings. It looks like you're sending the '' @
              ''internal graphql-js representation of a parsed query in your '' @
              ''request instead of a request in the GraphQL query language. You '' @
              ''can convert an AST to a string using the `print` function from '' @
              ''`graphql`, or use a client like `apollo-client` which converts '' @
              ''the internal representation to a string for you.'')
             False None), []) \<and>
   runHttpQuery exampleCollaborators
     (exampleHttp ''POST''
        (Batch [[(''query'', JStr ''{ testString }'')],
                [(''query'', JObj [(''kind'', JStr ''Document'')])]])) =
     (Inr \<lparr>graphqlResponse =
             exampleStringify
               (JArr [JObj [(''data'', JObj [(''testString'', JStr ''it works'')])],
                      JObj [(''errors'',
                             JArr [JObj [(''message'',
                               JStr (''GraphQL queries must be strings. It looks like you're sending the '' @
                                     ''internal graphql-js representation of a parsed query in your '' @
                                     ''request instead of a request in the GraphQL query language. You '' @
                                     ''can convert an AST to a string using the `print` function from '' @
                                     ''`graphql`, or use a client like `apollo-client` which converts '' @
                                     ''the internal representation to a string for you.''))]])]])
             @ [CHR 0x0A],
           responseInit =
             \<lparr>headers = [(''Content-Type'', ''application/json''),
                         (''Content-Length'', ''430'')]\<rparr>\<rparr>,
      [exampleCall False ''POST'' [(''query'', JStr ''{ testString }'')] None])"
  using query_must_be_string[where request = "exampleHttp ''POST''
             (Single [(''query'', JObj [(''kind'', JStr ''Field'')])])"
          and resolved = exampleOptions and isGetRequest = False
          and payload = "Single [(''query'', JObj [(''kind'', JStr ''Field'')])]" and i = 0
          and requestParams = "[(''query'', JObj [(''kind'', JStr ''Field'')])]"
          and env = exampleCollaborators and exts = None
          and queryString = "JObj [(''kind'', JStr ''Field'')]"]
        query_must_be_string[where request = "exampleHttp ''POST''
             (Single [(''query'', JObj [(''kind'', JStr ''Document'')])])"
          and resolved = exampleOptions and isGetRequest = False
          and payload = "Single [(''query'', JObj [(''kind'', JStr ''Document'')])]" and i = 0
          and requestParams = "[(''query'', JObj [(''kind'', JStr ''Document'')])]"
          and env = exampleCollaborators and exts = None
          and queryString = "JObj [(''kind'', JStr ''Document'')]"]
        query_must_be_string[where request = "exampleHttp ''POST''
             (Batch [[(''query'', JStr ''{ testString }'')],
                     [(''query'', JObj [(''kind'', JStr ''Document'')])]])"
          and resolved = exampleOptions and isGetRequest = False
          and payload = "Batch [[(''query'', JStr ''{ testString }'')],
                                [(''query'', JObj [(''kind'', JStr ''Document'')])]]" and i = 1
          and requestParams = "[(''query'', JObj [(''kind'', JStr ''Document'')])]"
          and env = exampleCollaborators and exts = None
          and queryString = "JObj [(''kind'', JStr ''Document'')]"]
  by (simp add: exampleHttp_defs digit_simps)

text \<open>
  C8 as stated fails twice over: a \<open>query\<close> that is the number 0 is present and not a string,
  yet the processor is invoked with it; and a parsed document sent as the one member of a
  batch is answered with an array, nothing being thrown.
\<close>

theorem query_must_be_string_counterexample:
  "snd (runHttpQuery exampleCollaborators (exampleHttp ''POST'' (Single [(''query'', JNum 0)]))) =
     [exampleCall False ''POST'' [(''query'', JNum 0)] None] \<and>
   pr_query (inv_request (exampleCall False ''POST'' [(''query'', JNum 0)] None)) = Some (JNum 0) \<and>
   runHttpQuery exampleCollaborators
     (exampleHttp ''POST'' (Batch [[(''query'', JObj [(''kind'', JStr ''Field'')])]])) =
     (Inr \<lparr>graphqlResponse =
             exampleStringify
               (JArr [JObj [(''errors'',
                             JArr [JObj [(''message'',
                                          JStr ''GraphQL queries must be strings.'')]])]])
             @ [CHR 0x0A],
           responseInit =
             \<lparr>headers = [(''Content-Type'', ''application/json''),
                         (''Content-Length'', ''62'')]\<rparr>\<rparr>,
      [])"
  by (simp add: exampleHttp_defs digit_simps)

text \<open>The number 0 reaches the processor whatever the processor then answers.\<close>

lemma falsy_query_reaches_processor:
  "snd (runHttpQuery (exampleCollaborators\<lparr>processor := p\<rparr>)
          (exampleHttp ''POST'' (Single [(''query'', JNum 0)]))) =
     [exampleCall False ''POST'' [(''query'', JNum 0)] None]"
  by (simp add: exampleHttp_defs split: sum.splits error.splits del: decimal.simps)

text \<open>
  C10, amended.  For every operation of a request, GET or POST alike, whose options resolve
  (the one object of the payload, or the \<open>i\<close>-th member of a batch), which passes the checks
  of extensions and query string and whose \<open>variables\<close> is a string.  When the string does
  not decode as JSON, the processing of the operation throws, without any processor
  invocation, an \<open>HttpQueryError\<close> of status 400 with the message
  \<open>Variables are invalid JSON.\<close>; when the payload is not a batch, \<open>runHttpQuery\<close> throws
  that error, and when it is a batch, \<open>runHttpQuery\<close> returns normally an array with one
  slot for each member, slot \<open>i\<close> being \<open>{errors: [...]}\<close> with that error formatted.  When
  the string decodes, the operation makes no processor invocation if the rest of its
  preparation fails, and otherwise one whose variables are the decoded value.  The processor
  invocations of \<open>runHttpQuery\<close> are those of its operations, in their order.
\<close>

theorem variables_decoded:
  assumes "hq_options request = Inr resolved"
      and "requestPayload (hq_method request) (hq_query request) = Inr (isGetRequest, payload)"
      and "i < length (payloadMembers payload)"
      and "payloadMembers payload ! i = requestParams"
      and "decodeExtensions env isGetRequest requestParams = Inr exts"
      and "checkQueryString requestParams = None"
      and "map_of requestParams ''variables'' = Some (JStr encoded)"
  shows "(case JSON_parse env (JStr encoded) of
            None \<Rightarrow>
              requestMember env (withDebugDefault env resolved) (hq_request request)
                isGetRequest i requestParams =
                (Inl (HttpQueryError 400 ''Variables are invalid JSON.'' False None), None) \<and>
              (case payload of
                 Single params \<Rightarrow>
                   runHttpQuery env request =
                     (Inl (HttpQueryError 400 ''Variables are invalid JSON.'' False None), [])
               | Batch ms \<Rightarrow>
                   (\<exists>response sent.
                      fst (runHttpQuery env request) = Inr response \<and>
                      graphqlResponse response
                        = JSON_stringify env (JArr (map JObj sent)) @ [CHR 0x0A] \<and>
                      length sent = length ms \<and>
                      sent ! i =
                        [(''errors'',
                          JArr (formatApolloErrors env
                                  [HttpQueryError 400 ''Variables are invalid JSON.'' False None]
                                  \<lparr>fo_debug = opt_debug (withDebugDefault env resolved),
                                   fo_formatter = None\<rparr>))]))
          | Some v \<Rightarrow>
              (case prepareInvocation env (withDebugDefault env resolved) (hq_request request)
                      isGetRequest i requestParams of
                 Inl e \<Rightarrow>
                   snd (requestMember env (withDebugDefault env resolved) (hq_request request)
                          isGetRequest i requestParams) = None
               | Inr call \<Rightarrow>
                   snd (requestMember env (withDebugDefault env resolved) (hq_request request)
                          isGetRequest i requestParams) = Some call \<and>
                   pr_variables (inv_request call) = Some v)) \<and>
         snd (runHttpQuery env request) =
           List.map_filter
             (\<lambda>(j, params). snd (requestMember env (withDebugDefault env resolved)
                                     (hq_request request) isGetRequest j params))
             (enumerate 0 (payloadMembers payload))"
proof -
  let ?opts = "withDebugDefault env resolved"
  let ?refusal = "HttpQueryError 400 ''Variables are invalid JSON.'' False None"
  note log = runHttpQuery_invocations[OF assms(1,2), of env]
  show ?thesis
  proof (cases "JSON_parse env (JStr encoded)")
    case None
    have p: "prepareInvocation env ?opts (hq_request request) isGetRequest i requestParams
               = Inl ?refusal"
      using assms(5-7) None
      by (simp add: prepareInvocation_def decodeParams_def decodeVariables_def)
    then have m: "requestMember env ?opts (hq_request request) isGetRequest i requestParams
                    = (Inl ?refusal, None)"
      by (rule member_rejected)
    have "case payload of
            Single params \<Rightarrow> runHttpQuery env request = (Inl ?refusal, [])
          | Batch ms \<Rightarrow>
              (\<exists>response sent.
                 fst (runHttpQuery env request) = Inr response \<and>
                 graphqlResponse response
                   = JSON_stringify env (JArr (map JObj sent)) @ [CHR 0x0A] \<and>
                 length sent = length ms \<and>
                 sent ! i =
                   [(''errors'',
                     JArr (formatApolloErrors env [?refusal]
                             \<lparr>fo_debug = opt_debug ?opts, fo_formatter = None\<rparr>))])"
    proof (cases payload)
      case (Single params)
      then have "params = requestParams" and "i = 0"
        using assms(3,4) by (simp_all add: payloadMembers_def)
      then show ?thesis
        using runHttpQuery_single_rejected[OF assms(1) assms(2)[unfolded Single]] p Single
        by simp
    next
      case (Batch ms)
      then have "i < length ms" and "ms ! i = requestParams"
        using assms(3,4) by (simp_all add: payloadMembers_def)
      then show ?thesis
        using batch_slot_error[OF assms(1) assms(2)[unfolded Batch], of i env ?refusal] m Batch
        by simp
    qed
    then show ?thesis
      using None m log by simp
  next
    case (Some v)
    have d: "decodeParams env (hq_request request) isGetRequest requestParams =
        Inr \<lparr>pr_query = map_of requestParams ''query'',
             pr_operationName = map_of requestParams ''operationName'',
             pr_variables = Some v, pr_extensions = exts,
             pr_httpRequest = hq_request request\<rparr>"
      using assms(5-7) Some by (simp add: decodeParams_def decodeVariables_def)
    have "case prepareInvocation env ?opts (hq_request request) isGetRequest i requestParams of
            Inl e \<Rightarrow>
              snd (requestMember env ?opts (hq_request request) isGetRequest i requestParams)
                = None
          | Inr call \<Rightarrow>
              snd (requestMember env ?opts (hq_request request) isGetRequest i requestParams)
                = Some call \<and>
              pr_variables (inv_request call) = Some v"
    proof (cases "prepareInvocation env ?opts (hq_request request) isGetRequest i requestParams")
      case (Inl e)
      then show ?thesis
        by (simp add: requestMember_def)
    next
      case (Inr call)
      then have "decodeParams env (hq_request request) isGetRequest requestParams
                   = Inr (inv_request call)"
        by (rule prepareInvocation_request)
      then have "inv_request call =
          \<lparr>pr_query = map_of requestParams ''query'',
           pr_operationName = map_of requestParams ''operationName'',
           pr_variables = Some v, pr_extensions = exts,
           pr_httpRequest = hq_request request\<rparr>"
        using d by simp
      then have "pr_variables (inv_request call) = Some v"
        by simp
      then show ?thesis
        using Inr by (simp add: requestMember_def)
    qed
    then show ?thesis
      using Some log by simp
  qed
qed

text \<open>
  POST requests with string variables: one that does not decode, one that does, and a batch
  whose second member's do not decode.
\<close>

theorem variables_decoded_witness:
  "runHttpQuery exampleCollaborators
     (exampleHttp ''POST'' (Single [(''query'', JStr ''{ testString }''), (''variables'', JStr ''{'')])) =
     (Inl (HttpQueryError 400 ''Variables are invalid JSON.'' False None), []) \<and>
   runHttpQuery exampleCollaborators
     (exampleHttp ''POST'' (Single [(''query'', JStr ''{ testString }''), (''variables'', JStr ''{}'')])) =
     (Inr \<lparr>graphqlResponse =
             exampleStringify (JObj [(''data'', JObj [(''testString'', JStr ''it works'')])])
             @ [CHR 0x0A],
           responseInit =
             \<lparr>headers = [(''Content-Type'', ''application/json''),
                         (''Content-Length'', ''35'')]\<rparr>\<rparr>,
      [exampleCall False ''POST'' [(''query'', JStr ''{ testString }'')] (Some (JObj []))]) \<and>
   runHttpQuery exampleCollaborators
     (exampleHttp ''POST''
        (Batch [[(''query'', JStr ''{ testString }''), (''variables'', JStr ''{}'')],
                [(''query'', JStr ''{ testString }''), (''variables'', JStr ''{'')]])) =
     (Inr \<lparr>graphqlResponse =
             exampleStringify
               (JArr [JObj [(''data'', JObj [(''testString'', JStr ''it works'')])],
                      JObj [(''errors'',
                             JArr [JObj [(''message'', JStr ''Variables are invalid JSON.'')]])]])
             @ [CHR 0x0A],
           responseInit =
             \<lparr>headers = [(''Content-Type'', ''application/json''),
                         (''Content-Length'', ''92'')]\<rparr>\<rparr>,
      [exampleCall False ''POST'' [(''query'', JStr ''{ testString }'')] (Some (JObj []))])"
  using variables_decoded[where request = "exampleHttp ''POST''
             (Single [(''query'', JStr ''{ testString }''), (''variables'', JStr ''{'')])"
          and resolved = exampleOptions and isGetRequest = False
          and payload = "Single [(''query'', JStr ''{ testString }''), (''variables'', JStr ''{'')]"
          and i = 0
          and requestParams = "[(''query'', JStr ''{ testString }''), (''variables'', JStr ''{'')]"
          and env = exampleCollaborators and exts = None and encoded = "''{''"]
        variables_decoded[where request = "exampleHttp ''POST''
             (Single [(''query'', JStr ''{ testString }''), (''variables'', JStr ''{}'')])"
          and resolved = exampleOptions and isGetRequest = False
          and payload = "Single [(''query'', JStr ''{ testString }''), (''variables'', JStr ''{}'')]"
          and i = 0
          and requestParams = "[(''query'', JStr ''{ testString }''), (''variables'', JStr ''{}'')]"
          and env = exampleCollaborators and exts = None and encoded = "''{}''"]
        variables_decoded[where request = "exampleHttp ''POST''
             (Batch [[(''query'', JStr ''{ testString }''), (''variables'', JStr ''{}'')],
                     [(''query'', JStr ''{ testString }''), (''variables'', JStr ''{'')]])"
          and resolved = exampleOptions and isGetRequest = False
          and payload = "Batch [[(''query'', JStr ''{ testString }''), (''variables'', JStr ''{}'')],
                                [(''query'', JStr ''{ testString }''), (''variables'', JStr ''{'')]]"
          and i = 1
          and requestParams = "[(''query'', JStr ''{ testString }''), (''variables'', JStr ''{'')]"
          and env = exampleCollaborators and exts = None and encoded = "''{''"]
  by (simp add: exampleHttp_defs digit_simps)

text \<open>
  C10 as stated fails for a batch: variables that do not decode, sent by POST in the one
  member of an array, are answered with an array whose slot holds the error, and nothing is
  thrown.
\<close>

theorem variables_decoded_batch_counterexample:
  "runHttpQuery exampleCollaborators
     (exampleHttp ''POST''
        (Batch [[(''query'', JStr ''{ testString }''), (''variables'', JStr ''{'')]])) =
     (Inr \<lparr>graphqlResponse =
             exampleStringify
               (JArr [JObj [(''errors'',
                             JArr [JObj [(''message'', JStr ''Variables are invalid JSON.'')]])]])
             @ [CHR 0x0A],
           responseInit =
             \<lparr>headers = [(''Content-Type'', ''application/json''),
                         (''Content-Length'', ''57'')]\<rparr>\<rparr>,
      [])"
  by (simp add: exampleHttp_defs digit_simps)

end
